theory Spec2Isabelle
  imports Main "HOL-Library.Log_Nat"
begin

unbundle bit_operations_syntax

section \<open>Python values shared by the modules\<close>

text \<open>
  Exceptions are values. Only the classes the modules raise or tell apart are kept;
  \<open>Exception\<close> stands for any other class a collaborator raises. Each carries the text
  that \<^verbatim>\<open>str(e)\<close> gives.
\<close>

datatype py_exception =
    ValueError string
  | ConnectionError string
  | TimeoutError string
  | OverflowError string
  | ZeroDivisionError string
  | Exception string

fun str_exc :: "py_exception \<Rightarrow> string" where
  "str_exc (ValueError m) = m"
| "str_exc (ConnectionError m) = m"
| "str_exc (TimeoutError m) = m"
| "str_exc (OverflowError m) = m"
| "str_exc (ZeroDivisionError m) = m"
| "str_exc (Exception m) = m"

text \<open>\<^verbatim>\<open>s.startswith(p)\<close>, \<^verbatim>\<open>p in s\<close> and \<^verbatim>\<open>s.lower()\<close> on strings.\<close>

definition startswith :: "string \<Rightarrow> string \<Rightarrow> bool" where
  "startswith s p = (take (length p) s = p)"

fun py_in :: "string \<Rightarrow> string \<Rightarrow> bool" where
  "py_in p [] = (p = [])"
| "py_in p (c # cs) = (startswith (c # cs) p \<or> py_in p cs)"

definition lower_char :: "char \<Rightarrow> char" where
  "lower_char c =
     (if c \<in> set ''ABCDEFGHIJKLMNOPQRSTUVWXYZ''
      then (case c of Char b0 b1 b2 b3 b4 b5 b6 b7 \<Rightarrow> Char b0 b1 b2 b3 b4 True b6 b7)
      else c)"

definition lower :: "string \<Rightarrow> string" where
  "lower s = map lower_char s"

text \<open>\<^verbatim>\<open>str(n)\<close> for an integer, as the f-strings render it.\<close>

definition digit_char :: "nat \<Rightarrow> char" where
  "digit_char n = ''0123456789'' ! (n mod 10)"

function str_nat :: "nat \<Rightarrow> string" where
  "str_nat n = (if n < 10 then [digit_char n] else str_nat (n div 10) @ [digit_char n])"
  by pat_completeness auto
termination
  by (relation "measure id") auto

definition str_int :: "int \<Rightarrow> string" where
  "str_int i = (if i < 0 then CHR ''-'' # str_nat (nat (- i)) else str_nat (nat i))"

section \<open>Python floats\<close>

text \<open>
  A \<open>float\<close> is an IEEE 754 binary64 value: a finite one is the rational it denotes
  (the two zeros are not told apart), and there are the two infinities and NaN.
  \<open>binary64 x\<close> is the binary64 value nearest to the rational \<open>x\<close>, ties to the even
  significand: 53 significant bits, least exponent \<open>-1074\<close>, and no value (the result
  is an infinity) from \<open>2 ^ 1024\<close> on.
\<close>

datatype py_float = Finite rat | PosInf | NegInf | NaN

definition round_half_even :: "rat \<Rightarrow> int" where
  "round_half_even x =
     (let f = \<lfloor>x\<rfloor>; r = x - of_int f
      in if r < 1 / 2 then f else if 1 / 2 < r then f + 1 else if even f then f else f + 1)"

text \<open>\<open>ilog2 x\<close> is the exponent \<open>e\<close> with \<open>2 powi e \<le> \<bar>x\<bar> < 2 powi (e + 1)\<close>, for \<open>x \<noteq> 0\<close>.\<close>

definition ilog2 :: "rat \<Rightarrow> int" where
  "ilog2 x =
     (case quotient_of \<bar>x\<bar> of (p, q) \<Rightarrow>
        let d = bitlen p - bitlen q in if 2 powi d \<le> \<bar>x\<bar> then d else d - 1)"

definition binary64 :: "rat \<Rightarrow> rat option" where
  "binary64 x =
     (if x = 0 then Some 0
      else let q = max (ilog2 x - 52) (- 1074);
               y = of_int (round_half_even (x / 2 powi q)) * 2 powi q
           in if 2 ^ 1024 \<le> \<bar>y\<bar> then None else Some y)"

definition round_float :: "rat \<Rightarrow> py_float" where
  "round_float x =
     (case binary64 x of Some y \<Rightarrow> Finite y | None \<Rightarrow> if 0 < x then PosInf else NegInf)"

text \<open>The conversion of an \<open>int\<close> operand of a float operation.\<close>

definition float_of_int :: "int \<Rightarrow> py_exception + py_float" where
  "float_of_int n =
     (case binary64 (of_int n) of
        Some y \<Rightarrow> Inr (Finite y)
      | None \<Rightarrow> Inl (OverflowError ''int too large to convert to float''))"

fun float_mul :: "py_float \<Rightarrow> py_float \<Rightarrow> py_float" where
  "float_mul (Finite a) (Finite b) = round_float (a * b)"
| "float_mul NaN _ = NaN"
| "float_mul _ NaN = NaN"
| "float_mul (Finite a) PosInf = (if a = 0 then NaN else if 0 < a then PosInf else NegInf)"
| "float_mul (Finite a) NegInf = (if a = 0 then NaN else if 0 < a then NegInf else PosInf)"
| "float_mul PosInf (Finite b) = (if b = 0 then NaN else if 0 < b then PosInf else NegInf)"
| "float_mul NegInf (Finite b) = (if b = 0 then NaN else if 0 < b then NegInf else PosInf)"
| "float_mul PosInf PosInf = PosInf"
| "float_mul PosInf NegInf = NegInf"
| "float_mul NegInf PosInf = NegInf"
| "float_mul NegInf NegInf = PosInf"

fun float_less :: "py_float \<Rightarrow> py_float \<Rightarrow> bool" where
  "float_less (Finite a) (Finite b) = (a < b)"
| "float_less NaN _ = False"
| "float_less _ NaN = False"
| "float_less NegInf NegInf = False"
| "float_less NegInf _ = True"
| "float_less _ NegInf = False"
| "float_less PosInf _ = False"
| "float_less _ PosInf = True"

text \<open>\<^verbatim>\<open>int(x)\<close> truncates toward zero and raises on an infinity or NaN.\<close>

definition py_int :: "py_float \<Rightarrow> py_exception + int" where
  "py_int x =
     (case x of
        Finite r \<Rightarrow> Inr (if 0 \<le> r then \<lfloor>r\<rfloor> else \<lceil>r\<rceil>)
      | PosInf \<Rightarrow> Inl (OverflowError ''cannot convert float infinity to integer'')
      | NegInf \<Rightarrow> Inl (OverflowError ''cannot convert float infinity to integer'')
      | NaN \<Rightarrow> Inl (ValueError ''cannot convert float NaN to integer''))"

text \<open>\<^verbatim>\<open>a / b\<close> on two integers: the quotient, correctly rounded.\<close>

definition int_truediv :: "int \<Rightarrow> int \<Rightarrow> py_exception + py_float" where
  "int_truediv a b =
     (if b = 0 then Inl (ZeroDivisionError ''division by zero'')
      else case binary64 (of_int a / of_int b) of
             Some y \<Rightarrow> Inr (Finite y)
           | None \<Rightarrow> Inl (OverflowError ''integer division result too large for a float''))"

section \<open>Dictionaries of the modules\<close>

text \<open>
  Each dictionary the modules build is a record; a field is the dictionary's key behind
  a prefix that names the dictionary. A native transfer's transaction has no \<open>data\<close>
  key; a token transfer's carries the encoded \<open>transfer\<close> call. The keys that
  \<open>result.update(confirmation)\<close> adds to a result are its \<open>confirmation\<close> field, and
  the confirmation time is in milliseconds.
\<close>

record transaction =
  tx_nonce :: nat
  tx_to :: string
  tx_value :: int
  tx_gas :: nat
  tx_gasPrice :: nat
  tx_chainId :: nat
  tx_data :: "string option"

record receipt =
  rc_status :: nat
  rc_gasUsed :: nat
  rc_blockNumber :: nat

datatype receipt_reply = Raises py_exception | Falsy | Receipt receipt

record contract =
  contract_address :: string
  contract_abi :: "string list"

record token_info =
  ti_address :: string
  ti_name :: string
  ti_symbol :: string
  ti_decimals :: nat
  ti_total_supply :: nat

record token_balance =
  tb_wallet_address :: string
  tb_token_address :: string
  tb_token_name :: string
  tb_token_symbol :: string
  tb_balance_raw :: nat
  tb_balance_formatted :: py_float
  tb_decimals :: nat

record balance_info =
  bi_address :: string
  bi_balance_wei :: nat
  bi_balance_bnb :: py_float

record confirmation =
  cf_tx_hash :: string
  cf_status :: string
  cf_gas_used :: nat
  cf_block_number :: nat
  cf_confirmation_time :: nat

record bnb_result =
  br_tx_hash :: string
  br_from_address :: string
  br_to_address :: string
  br_amount_bnb :: py_float
  br_explorer_url :: string
  br_confirmation :: "confirmation option"

section \<open>The world and the collaborators\<close>

text \<open>
  What a call does to the outside is a trace of events, and a wall clock in
  milliseconds. Every request to the node, every signature and every sleep appends
  its event.
\<close>

datatype event =
    Ev_get_balance string
  | Ev_gas_price
  | Ev_get_transaction_count string
  | Ev_send_raw_transaction string
  | Ev_get_transaction_receipt string
  | Ev_contract_call string string
  | Ev_sign transaction
  | Ev_sleep nat

record world =
  now :: nat
  trace :: "event list"

text \<open>
  \<open>self.web3\<close>, \<open>eth_account\<close> and the rendering of a float in an f-string: the library
  functions are parameters, the node's replies are functions of the world at the
  moment of the request, and \<open>latency\<close> is the time a request takes.
\<close>

record web3 =
  is_address :: "string \<Rightarrow> bool"
  to_checksum_address :: "string \<Rightarrow> string"
  to_wei_ether :: "py_float \<Rightarrow> py_exception + int"
  eth_get_balance :: "world \<Rightarrow> string \<Rightarrow> py_exception + nat"
  eth_gas_price :: "world \<Rightarrow> py_exception + nat"
  eth_get_transaction_count :: "world \<Rightarrow> string \<Rightarrow> py_exception + nat"
  eth_send_raw_transaction :: "world \<Rightarrow> string \<Rightarrow> py_exception + string"
  eth_get_transaction_receipt :: "world \<Rightarrow> string \<Rightarrow> receipt_reply"
  latency :: "world \<Rightarrow> nat"
  call_name :: "world \<Rightarrow> contract \<Rightarrow> py_exception + string"
  call_symbol :: "world \<Rightarrow> contract \<Rightarrow> py_exception + string"
  call_decimals :: "world \<Rightarrow> contract \<Rightarrow> py_exception + nat"
  call_totalSupply :: "world \<Rightarrow> contract \<Rightarrow> py_exception + nat"
  call_balanceOf :: "world \<Rightarrow> contract \<Rightarrow> string \<Rightarrow> py_exception + nat"
  encode_transfer :: "contract \<Rightarrow> string \<Rightarrow> int \<Rightarrow> py_exception + string"
  account_from_key :: "string \<Rightarrow> py_exception + string"
  account_sign_transaction :: "transaction \<Rightarrow> string \<Rightarrow> py_exception + string"
  float_repr :: "py_float \<Rightarrow> string"

definition request :: "web3 \<Rightarrow> world \<Rightarrow> event \<Rightarrow> world" where
  "request W w ev = w\<lparr>now := now w + latency W w, trace := trace w @ [ev]\<rparr>"

text \<open>
  \<^verbatim>\<open>web3.from_wei(n, 'ether')\<close> is the exact decimal \<open>n / 10 ^ 18\<close>, and raises outside
  the range of a \<open>uint256\<close>.
\<close>

definition from_wei_ether :: "nat \<Rightarrow> py_exception + rat" where
  "from_wei_ether n =
     (if 2 ^ 256 - 1 < n then Inl (ValueError ''value must be between 1 and 2**256 - 1'')
      else Inr (of_nat n / 10 ^ 18))"

subsection \<open>config.py\<close>

definition BSC_TESTNET_CHAIN_ID :: nat where
  "BSC_TESTNET_CHAIN_ID = 97"

definition BSC_TESTNET_EXPLORER :: string where
  "BSC_TESTNET_EXPLORER = ''https://testnet.bscscan.com''"

definition BSC_TESTNET_FAUCETS :: "string list" where
  "BSC_TESTNET_FAUCETS =
     [''https://testnet.bnbchain.org/faucet-smart'', ''https://testnet.binance.org/faucet-smart'']"

definition DEFAULT_GAS_LIMIT :: nat where
  "DEFAULT_GAS_LIMIT = 21000"

definition TOKEN_TRANSFER_GAS_LIMIT :: nat where
  "TOKEN_TRANSFER_GAS_LIMIT = 100000"

definition DEFAULT_GAS_PRICE :: nat where
  "DEFAULT_GAS_PRICE = 20000000000"

definition ERC20_ABI :: "string list" where
  "ERC20_ABI = [''name'', ''symbol'', ''decimals'', ''balanceOf'', ''transfer'', ''totalSupply'']"

section \<open>token\_transfer.py\<close>

definition get_token_contract ::
    "web3 \<Rightarrow> string \<Rightarrow> string list option \<Rightarrow> py_exception + contract" where
  "get_token_contract W token_address abi =
     (if \<not> is_address W token_address then Inl (ValueError ''Invalid token address format'')
      else
        let contract_abi = (case abi of None \<Rightarrow> ERC20_ABI
                            | Some a \<Rightarrow> if a = [] then ERC20_ABI else a);
            checksum_address = to_checksum_address W token_address
        in Inr \<lparr>contract_address = checksum_address, contract_abi = contract_abi\<rparr>)"

text \<open>
  \<open>get_token_info\<close>: each of the four calls has a bare \<open>except\<close> of its own, which
  replaces a failed call by a default.
\<close>

definition get_token_info ::
    "web3 \<Rightarrow> world \<Rightarrow> string \<Rightarrow> string list option \<Rightarrow> (py_exception + token_info) \<times> world" where
  "get_token_info W w token_address abi =
     (case get_token_contract W token_address abi of
        Inl e \<Rightarrow> (Inl e, w)
      | Inr contract \<Rightarrow>
          let name = (case call_name W w contract of Inr v \<Rightarrow> v | Inl e \<Rightarrow> ''Unknown'');
              w1 = request W w (Ev_contract_call (contract_address contract) ''name'');
              symbol = (case call_symbol W w1 contract of Inr v \<Rightarrow> v | Inl e \<Rightarrow> ''UNK'');
              w2 = request W w1 (Ev_contract_call (contract_address contract) ''symbol'');
              decimals = (case call_decimals W w2 contract of Inr v \<Rightarrow> v | Inl e \<Rightarrow> 18);
              w3 = request W w2 (Ev_contract_call (contract_address contract) ''decimals'');
              total_supply = (case call_totalSupply W w3 contract of Inr v \<Rightarrow> v | Inl e \<Rightarrow> 0);
              w4 = request W w3 (Ev_contract_call (contract_address contract) ''totalSupply'')
          in (Inr \<lparr>ti_address = to_checksum_address W token_address, ti_name = name,
                    ti_symbol = symbol, ti_decimals = decimals,
                    ti_total_supply = total_supply\<rparr>, w4))"

text \<open>
  The two conversions between a human amount and base units, as the module writes
  them: \<^verbatim>\<open>balance_raw / (10 ** decimals)\<close> in \<open>get_token_balance\<close> and
  \<^verbatim>\<open>int(amount * (10 ** decimals))\<close> in \<open>create_token_transfer_transaction\<close>.
\<close>

definition balance_formatted_of :: "int \<Rightarrow> nat \<Rightarrow> py_exception + py_float" where
  "balance_formatted_of balance_raw decimals = int_truediv balance_raw (10 ^ decimals)"

definition amount_raw_of :: "py_float \<Rightarrow> nat \<Rightarrow> py_exception + int" where
  "amount_raw_of amount decimals =
     (case float_of_int (10 ^ decimals) of
        Inl e \<Rightarrow> Inl e
      | Inr scale \<Rightarrow> py_int (float_mul amount scale))"

definition get_token_balance ::
    "web3 \<Rightarrow> world \<Rightarrow> string \<Rightarrow> string \<Rightarrow> string list option
       \<Rightarrow> (py_exception + token_balance) \<times> world" where
  "get_token_balance W w token_address wallet_address abi =
     (case get_token_contract W token_address abi of
        Inl e \<Rightarrow> (Inl e, w)
      | Inr contract \<Rightarrow>
         (case get_token_info W w token_address abi of
            (Inl e, w1) \<Rightarrow> (Inl e, w1)
          | (Inr token_info, w1) \<Rightarrow>
              if \<not> is_address W wallet_address
              then (Inl (ValueError ''Invalid wallet address format''), w1)
              else
               (let checksum_wallet = to_checksum_address W wallet_address;
                    w2 = request W w1 (Ev_contract_call (contract_address contract) ''balanceOf'')
                in (case call_balanceOf W w1 contract checksum_wallet of
                      Inl e \<Rightarrow> (Inl e, w2)
                    | Inr balance_raw \<Rightarrow>
                       (case balance_formatted_of (int balance_raw) (ti_decimals token_info) of
                          Inl e \<Rightarrow> (Inl e, w2)
                        | Inr balance_formatted \<Rightarrow>
                            (Inr \<lparr>tb_wallet_address = checksum_wallet,
                                   tb_token_address = ti_address token_info,
                                   tb_token_name = ti_name token_info,
                                   tb_token_symbol = ti_symbol token_info,
                                   tb_balance_raw = balance_raw,
                                   tb_balance_formatted = balance_formatted,
                                   tb_decimals = ti_decimals token_info\<rparr>, w2))))))"

text \<open>
  \<open>estimate_gas_price\<close>, the same in both modules. The \<open>try\<close> block also formats the
  price with \<^verbatim>\<open>from_wei(gas_price, 'gwei')\<close> for the log, which raises beyond a
  \<open>uint256\<close>; any failure gives the default.
\<close>

definition estimate_gas_price :: "web3 \<Rightarrow> world \<Rightarrow> nat \<times> world" where
  "estimate_gas_price W w =
     (let w1 = request W w Ev_gas_price in
      case eth_gas_price W w of
        Inr gas_price \<Rightarrow> (if 2 ^ 256 - 1 < gas_price then DEFAULT_GAS_PRICE else gas_price, w1)
      | Inl e \<Rightarrow> (DEFAULT_GAS_PRICE, w1))"

definition create_token_transfer_transaction ::
    "web3 \<Rightarrow> world \<Rightarrow> string \<Rightarrow> string \<Rightarrow> string \<Rightarrow> py_float \<Rightarrow> string list option
       \<Rightarrow> nat option \<Rightarrow> (py_exception + transaction) \<times> world" where
  "create_token_transfer_transaction W w token_address from_address to_address amount abi gas_price =
     (case get_token_contract W token_address abi of
        Inl e \<Rightarrow> (Inl e, w)
      | Inr contract \<Rightarrow>
         (case get_token_info W w token_address abi of
            (Inl e, w1) \<Rightarrow> (Inl e, w1)
          | (Inr token_info, w1) \<Rightarrow>
              if \<not> is_address W from_address
              then (Inl (ValueError ''Invalid from_address format''), w1)
              else if \<not> is_address W to_address
              then (Inl (ValueError ''Invalid to_address format''), w1)
              else
               (let from_checksum = to_checksum_address W from_address;
                    to_checksum = to_checksum_address W to_address;
                    decimals = ti_decimals token_info
                in (case amount_raw_of amount decimals of
                      Inl e \<Rightarrow> (Inl e, w1)
                    | Inr amount_raw \<Rightarrow>
                       (case (case gas_price of None \<Rightarrow> estimate_gas_price W w1
                              | Some g \<Rightarrow> (g, w1)) of
                          (gas_price, w2) \<Rightarrow>
                           (let w3 = request W w2 (Ev_get_transaction_count from_checksum) in
                            (case eth_get_transaction_count W w2 from_checksum of
                               Inl e \<Rightarrow> (Inl e, w3)
                             | Inr nonce \<Rightarrow>
                                (case encode_transfer W contract to_checksum amount_raw of
                                   Inl e \<Rightarrow> (Inl e, w3)
                                 | Inr payload \<Rightarrow>
                                    (Inr \<lparr>tx_nonce = nonce, tx_to = contract_address contract,
                                           tx_value = 0, tx_gas = TOKEN_TRANSFER_GAS_LIMIT,
                                           tx_gasPrice = gas_price,
                                           tx_chainId = BSC_TESTNET_CHAIN_ID,
                                           tx_data = Some payload\<rparr>, w3)))))))))"

definition is_hex_digit :: "char \<Rightarrow> bool" where
  "is_hex_digit c = (c \<in> set ''0123456789abcdefABCDEF'')"

definition TokenTransfer_sign_transaction ::
    "web3 \<Rightarrow> world \<Rightarrow> transaction \<Rightarrow> string \<Rightarrow> (py_exception + string) \<times> world" where
  "TokenTransfer_sign_transaction W w transaction private_key =
     (let private_key = (if startswith private_key ''0x'' then drop 2 private_key
                         else private_key)
      in (account_sign_transaction W transaction private_key,
          w\<lparr>trace := trace w @ [Ev_sign transaction]\<rparr>))"

text \<open>\<open>TokenTransfer.broadcast_transaction\<close>: the \<open>except\<close> clause logs and re-raises.\<close>

definition TokenTransfer_broadcast_transaction ::
    "web3 \<Rightarrow> world \<Rightarrow> string \<Rightarrow> (py_exception + string) \<times> world" where
  "TokenTransfer_broadcast_transaction W w signed_transaction =
     (let w' = request W w (Ev_send_raw_transaction signed_transaction) in
      case eth_send_raw_transaction W w signed_transaction of
        Inr tx_hash_hex \<Rightarrow> (Inr tx_hash_hex, w')
      | Inl e \<Rightarrow> (Inl e, w'))"

section \<open>Waiting for a receipt\<close>

text \<open>
  The \<open>while\<close> loop of \<open>wait_for_confirmation\<close>, the same in both modules apart from
  the text of the timeout. \<open>start_time\<close> and the clock are in milliseconds and
  \<open>timeout\<close> in seconds. A poll that raises or gives a falsy value is followed by
  \<^verbatim>\<open>time.sleep(2)\<close>; a receipt ends the loop.
\<close>

function wait_loop ::
    "web3 \<Rightarrow> string \<Rightarrow> string \<Rightarrow> int \<Rightarrow> nat \<Rightarrow> world \<Rightarrow> (py_exception + confirmation) \<times> world" where
  "wait_loop W msg tx_hash timeout start_time w =
     (if int (now w) - int start_time < timeout * 1000 then
        let w1 = request W w (Ev_get_transaction_receipt tx_hash) in
        case eth_get_transaction_receipt W w tx_hash of
          Receipt r \<Rightarrow>
            (Inr \<lparr>cf_tx_hash = tx_hash,
                   cf_status = (if rc_status r = 1 then ''Success'' else ''Failed''),
                   cf_gas_used = rc_gasUsed r,
                   cf_block_number = rc_blockNumber r,
                   cf_confirmation_time = now w1 - start_time\<rparr>, w1)
        | Falsy \<Rightarrow>
            wait_loop W msg tx_hash timeout start_time
              (w1\<lparr>now := now w1 + 2000, trace := trace w1 @ [Ev_sleep 2]\<rparr>)
        | Raises e \<Rightarrow>
            wait_loop W msg tx_hash timeout start_time
              (w1\<lparr>now := now w1 + 2000, trace := trace w1 @ [Ev_sleep 2]\<rparr>)
      else (Inl (TimeoutError (msg @ str_int timeout @ '' seconds'')), w))"
  by pat_completeness auto
termination
  by (relation "measure (\<lambda>(W, msg, tx_hash, timeout, start_time, w).
                   nat (timeout * 1000 - (int (now w) - int start_time)))")
     (auto simp: request_def)

definition BNBTransfer_wait_for_confirmation ::
    "web3 \<Rightarrow> world \<Rightarrow> string \<Rightarrow> int \<Rightarrow> (py_exception + confirmation) \<times> world" where
  "BNBTransfer_wait_for_confirmation W w tx_hash timeout =
     wait_loop W ''Transaction confirmation timeout after '' tx_hash timeout (now w) w"

definition TokenTransfer_wait_for_confirmation ::
    "web3 \<Rightarrow> world \<Rightarrow> string \<Rightarrow> int \<Rightarrow> (py_exception + confirmation) \<times> world" where
  "TokenTransfer_wait_for_confirmation W w tx_hash timeout =
     wait_loop W ''Token transfer confirmation timeout after '' tx_hash timeout (now w) w"

section \<open>bnb\_transfer.py\<close>

definition get_balance ::
    "web3 \<Rightarrow> world \<Rightarrow> string \<Rightarrow> (py_exception + balance_info) \<times> world" where
  "get_balance W w addr =
     (if \<not> is_address W addr then (Inl (ValueError ''Invalid address format''), w)
      else
        let checksum_address = to_checksum_address W addr;
            w1 = request W w (Ev_get_balance checksum_address)
        in case eth_get_balance W w checksum_address of
             Inl e \<Rightarrow> (Inl e, w1)
           | Inr balance_wei \<Rightarrow>
              (case from_wei_ether balance_wei of
                 Inl e \<Rightarrow> (Inl e, w1)
               | Inr balance_bnb \<Rightarrow>
                   (Inr \<lparr>bi_address = checksum_address, bi_balance_wei = balance_wei,
                          bi_balance_bnb = round_float balance_bnb\<rparr>, w1)))"

definition create_transaction ::
    "web3 \<Rightarrow> world \<Rightarrow> string \<Rightarrow> string \<Rightarrow> py_float \<Rightarrow> nat option
       \<Rightarrow> (py_exception + transaction) \<times> world" where
  "create_transaction W w from_address to_address amount_bnb gas_price =
     (if \<not> is_address W from_address then (Inl (ValueError ''Invalid from_address format''), w)
      else if \<not> is_address W to_address then (Inl (ValueError ''Invalid to_address format''), w)
      else
        let from_checksum = to_checksum_address W from_address;
            to_checksum = to_checksum_address W to_address
        in (case to_wei_ether W amount_bnb of
              Inl e \<Rightarrow> (Inl e, w)
            | Inr amount_wei \<Rightarrow>
               (case (case gas_price of None \<Rightarrow> estimate_gas_price W w | Some g \<Rightarrow> (g, w)) of
                  (gas_price, w1) \<Rightarrow>
                   (let w2 = request W w1 (Ev_get_transaction_count from_checksum) in
                    (case eth_get_transaction_count W w1 from_checksum of
                       Inl e \<Rightarrow> (Inl e, w2)
                     | Inr nonce \<Rightarrow>
                         (Inr \<lparr>tx_nonce = nonce, tx_to = to_checksum, tx_value = amount_wei,
                                tx_gas = DEFAULT_GAS_LIMIT, tx_gasPrice = gas_price,
                                tx_chainId = BSC_TESTNET_CHAIN_ID, tx_data = None\<rparr>, w2))))))"

definition BNBTransfer_sign_transaction ::
    "web3 \<Rightarrow> world \<Rightarrow> transaction \<Rightarrow> string \<Rightarrow> (py_exception + string) \<times> world" where
  "BNBTransfer_sign_transaction W w transaction private_key =
     (let private_key = (if startswith private_key ''0x'' then drop 2 private_key
                         else private_key)
      in (account_sign_transaction W transaction private_key,
          w\<lparr>trace := trace w @ [Ev_sign transaction]\<rparr>))"

text \<open>
  \<open>BNBTransfer.broadcast_transaction\<close>: the \<open>except\<close> clause matches the lower-cased
  text of the error against six patterns, in the source's order.
\<close>

definition BNBTransfer_broadcast_transaction ::
    "web3 \<Rightarrow> world \<Rightarrow> string \<Rightarrow> (py_exception + string) \<times> world" where
  "BNBTransfer_broadcast_transaction W w signed_transaction =
     (let w' = request W w (Ev_send_raw_transaction signed_transaction) in
      case eth_send_raw_transaction W w signed_transaction of
        Inr tx_hash_hex \<Rightarrow> (Inr tx_hash_hex, w')
      | Inl e \<Rightarrow>
          (let error_str = lower (str_exc e) in
           if py_in ''insufficient funds'' error_str then
             (Inl (ValueError (''Insufficient funds: Your wallet doesn'' @ [CHR 39] @ ''t have enough BNB to cover the transaction amount plus gas fees.'')), w')
           else if py_in ''nonce too low'' error_str then
             (Inl (ValueError (''Nonce too low: This transaction has already been processed or there'' @ [CHR 39] @ ''s a nonce conflict.'')), w')
           else if py_in ''nonce too high'' error_str then
             (Inl (ValueError ''Nonce too high: Transaction nonce is higher than expected. Try again in a few seconds.''), w')
           else if py_in ''gas price too low'' error_str then
             (Inl (ValueError ''Gas price too low: Current network gas price is higher than specified. Try increasing the gas price.''), w')
           else if py_in ''intrinsic gas too low'' error_str then
             (Inl (ValueError ''Gas limit too low: The transaction requires more gas than specified.''), w')
           else if py_in ''connection'' error_str \<or> py_in ''timeout'' error_str then
             (Inl (ConnectionError ''Network connection issue: Unable to broadcast transaction. Check your internet connection or try a different RPC endpoint.''), w')
           else
             (Inl (ValueError (''Transaction broadcast failed: '' @ str_exc e)), w')))"

text \<open>
  The message of the balance gate of \<open>send_bnb\<close>. The pictographs and the bullet that
  open the lines of the source's text are left out, the rest is as written.
\<close>

definition insufficient_balance_msg :: "web3 \<Rightarrow> balance_info \<Rightarrow> py_float \<Rightarrow> string \<Rightarrow> string" where
  "insufficient_balance_msg W balance_info amount_bnb from_address =
     (let error_msg = ''Insufficient balance. Available: ''
            @ float_repr W (bi_balance_bnb balance_info) @ '' BNB, Required: ''
            @ float_repr W amount_bnb @ '' BNB''
      in if bi_balance_bnb balance_info = Finite 0
         then error_msg @ [CHR 10, CHR 10] @ ''Your wallet has no testnet BNB!''
              @ [CHR 10, CHR 10] @ ''To get testnet BNB, visit one of these faucets:''
              @ concat (map (\<lambda>faucet. CHR 10 # ''   '' @ faucet) BSC_TESTNET_FAUCETS)
              @ [CHR 10, CHR 10] @ ''Your wallet address: '' @ from_address
              @ [CHR 10, CHR 10]
              @ ''Faucets typically give 0.1-1 BNB per request and may have daily limits.''
         else error_msg)"

definition send_bnb ::
    "web3 \<Rightarrow> world \<Rightarrow> string \<Rightarrow> string \<Rightarrow> py_float \<Rightarrow> bool
       \<Rightarrow> (py_exception + bnb_result) \<times> world" where
  "send_bnb W w private_key to_address amount_bnb wait_for_confirmation =
     (case account_from_key W private_key of
        Inl e \<Rightarrow> (Inl e, w)
      | Inr from_address \<Rightarrow>
         (case get_balance W w from_address of
            (Inl e, w1) \<Rightarrow> (Inl e, w1)
          | (Inr balance_info, w1) \<Rightarrow>
              if float_less (bi_balance_bnb balance_info) amount_bnb
              then (Inl (ValueError
                           (insufficient_balance_msg W balance_info amount_bnb from_address)), w1)
              else
               (case create_transaction W w1 from_address to_address amount_bnb None of
                  (Inl e, w2) \<Rightarrow> (Inl e, w2)
                | (Inr transaction, w2) \<Rightarrow>
                   (case BNBTransfer_sign_transaction W w2 transaction private_key of
                      (Inl e, w3) \<Rightarrow> (Inl e, w3)
                    | (Inr signed_tx, w3) \<Rightarrow>
                       (case BNBTransfer_broadcast_transaction W w3 signed_tx of
                          (Inl e, w4) \<Rightarrow> (Inl e, w4)
                        | (Inr tx_hash, w4) \<Rightarrow>
                           let result = \<lparr>br_tx_hash = tx_hash, br_from_address = from_address,
                                          br_to_address = to_address,
                                          br_amount_bnb = amount_bnb,
                                          br_explorer_url =
                                            BSC_TESTNET_EXPLORER @ ''/tx/'' @ tx_hash,
                                          br_confirmation = None\<rparr>
                           in if wait_for_confirmation
                              then (case BNBTransfer_wait_for_confirmation W w4 tx_hash 300 of
                                      (Inl e, w5) \<Rightarrow> (Inl e, w5)
                                    | (Inr c, w5) \<Rightarrow>
                                        (Inr (result\<lparr>br_tx_hash := cf_tx_hash c,
                                                     br_confirmation := Some c\<rparr>), w5))
                              else (Inr result, w4))))))"

section \<open>wallet\_generator.py\<close>

text \<open>
  The libraries under \<open>WalletGenerator\<close>: the BIP39 word list (\<open>Mnemonic\<close>), the seed
  generator, BIP32 child key derivation and \<open>eth_account\<close> are parameters. A key is
  the bytes of an extended private key. A BIP32 index is a 32-bit number and is
  hardened from \<open>2 ^ 31\<close> on.
\<close>

record wallet_libs =
  mnemo_generate :: "nat \<Rightarrow> string \<Rightarrow> py_exception + string"
  mnemo_check :: "string \<Rightarrow> py_exception + bool"
  seed_generate :: "string \<Rightarrow> string"
  master_key :: "string \<Rightarrow> string"
  child_key :: "string \<Rightarrow> nat \<Rightarrow> string"
  key_to_hex :: "string \<Rightarrow> string"
  account_of_key :: "string \<Rightarrow> py_exception + string \<times> string"

text \<open>The state \<open>WalletGenerator\<close> runs in: the bytes the system's entropy source gives next.\<close>

record entropy =
  pool :: "string"

record wallet_info =
  wi_mnemonic :: string
  wi_private_key :: string
  wi_public_key :: string
  wi_address :: string
  wi_bip44_path :: string

text \<open>
  A \<open>Bip44\<close> object: the key it holds and, as a ghost field, the indices by which the
  key was derived from the master key.
\<close>

record bip44 =
  ctx_key :: string
  ctx_path :: "nat list"

definition HardenIndex :: "int \<Rightarrow> int" where
  "HardenIndex i = i OR 2 ^ 31"

definition ChildKey :: "wallet_libs \<Rightarrow> bip44 \<Rightarrow> int \<Rightarrow> py_exception + bip44" where
  "ChildKey L ctx i =
     (if i < 0 \<or> 2 ^ 32 - 1 < i then Inl (ValueError (''Invalid key index ('' @ str_int i @ '')''))
      else Inr \<lparr>ctx_key = child_key L (ctx_key ctx) (nat i), ctx_path = ctx_path ctx @ [nat i]\<rparr>)"

definition FromSeed :: "wallet_libs \<Rightarrow> string \<Rightarrow> bip44" where
  "FromSeed L seed_bytes = \<lparr>ctx_key = master_key L seed_bytes, ctx_path = []\<rparr>"

definition Purpose :: "wallet_libs \<Rightarrow> bip44 \<Rightarrow> py_exception + bip44" where
  "Purpose L ctx = ChildKey L ctx (HardenIndex 44)"

definition Coin :: "wallet_libs \<Rightarrow> bip44 \<Rightarrow> py_exception + bip44" where
  "Coin L ctx = ChildKey L ctx (HardenIndex 60)"

definition Account :: "wallet_libs \<Rightarrow> bip44 \<Rightarrow> int \<Rightarrow> py_exception + bip44" where
  "Account L ctx acc_idx = ChildKey L ctx (HardenIndex acc_idx)"

definition CHAIN_EXT :: int where
  "CHAIN_EXT = 0"

definition Change :: "wallet_libs \<Rightarrow> bip44 \<Rightarrow> int \<Rightarrow> py_exception + bip44" where
  "Change L ctx change_type = ChildKey L ctx change_type"

definition AddressIndex :: "wallet_libs \<Rightarrow> bip44 \<Rightarrow> int \<Rightarrow> py_exception + bip44" where
  "AddressIndex L ctx addr_idx = ChildKey L ctx addr_idx"

text \<open>The usual notation of a derivation path: \<open>m\<close>, then each index, a hardened one with a quote.\<close>

definition path_elem :: "nat \<Rightarrow> string" where
  "path_elem i = (if 2 ^ 31 \<le> i then str_nat (i - 2 ^ 31) @ [CHR 39] else str_nat i)"

definition path_string :: "nat list \<Rightarrow> string" where
  "path_string p = ''m'' @ concat (map (\<lambda>i. CHR ''/'' # path_elem i) p)"

definition generate_mnemonic ::
    "wallet_libs \<Rightarrow> entropy \<Rightarrow> nat \<Rightarrow> (py_exception + string) \<times> entropy" where
  "generate_mnemonic L s strength =
     (mnemo_generate L strength (take (strength div 8) (pool s)),
      s\<lparr>pool := drop (strength div 8) (pool s)\<rparr>)"

definition validate_mnemonic :: "wallet_libs \<Rightarrow> string \<Rightarrow> bool" where
  "validate_mnemonic L mnemonic = (case mnemo_check L mnemonic of Inr b \<Rightarrow> b | Inl e \<Rightarrow> False)"

text \<open>
  Lines 79 to 82 of \<open>derive_wallet_from_mnemonic\<close>: the walk from the seed to the leaf.
\<close>

definition derive_leaf :: "wallet_libs \<Rightarrow> string \<Rightarrow> int \<Rightarrow> py_exception + bip44" where
  "derive_leaf L seed_bytes account_index =
     (let bip44_mst_ctx = FromSeed L seed_bytes in
      (case Purpose L bip44_mst_ctx of Inl e \<Rightarrow> Inl e | Inr c1 \<Rightarrow>
      (case Coin L c1 of Inl e \<Rightarrow> Inl e | Inr c2 \<Rightarrow>
      (case Account L c2 account_index of Inl e \<Rightarrow> Inl e | Inr bip44_acc_ctx \<Rightarrow>
      (case Change L bip44_acc_ctx CHAIN_EXT of Inl e \<Rightarrow> Inl e | Inr bip44_chg_ctx \<Rightarrow>
         AddressIndex L bip44_chg_ctx 0)))))"

definition derive_wallet_from_mnemonic ::
    "wallet_libs \<Rightarrow> entropy \<Rightarrow> string \<Rightarrow> int \<Rightarrow> (py_exception + wallet_info) \<times> entropy" where
  "derive_wallet_from_mnemonic L s mnemonic account_index =
     (if \<not> validate_mnemonic L mnemonic then (Inl (ValueError ''Invalid mnemonic phrase''), s)
      else
        let seed_bytes = seed_generate L mnemonic in
        (case derive_leaf L seed_bytes account_index of
           Inl e \<Rightarrow> (Inl e, s)
         | Inr bip44_addr_ctx \<Rightarrow>
            (let private_key_hex = key_to_hex L (ctx_key bip44_addr_ctx) in
             (case account_of_key L private_key_hex of
                Inl e \<Rightarrow> (Inl e, s)
              | Inr (addr, public_key) \<Rightarrow>
                  (Inr \<lparr>wi_mnemonic = mnemonic, wi_private_key = private_key_hex,
                         wi_public_key = public_key, wi_address = addr,
                         wi_bip44_path = ''m/44'/60'/0'/0/'' @ str_int account_index\<rparr>,
                   s)))))"

definition create_new_wallet ::
    "wallet_libs \<Rightarrow> entropy \<Rightarrow> nat \<Rightarrow> (py_exception + wallet_info) \<times> entropy" where
  "create_new_wallet L s strength =
     (case generate_mnemonic L s strength of
        (Inl e, s1) \<Rightarrow> (Inl e, s1)
      | (Inr mnemonic, s1) \<Rightarrow> derive_wallet_from_mnemonic L s1 mnemonic 0)"

section \<open>Base units there and back\<close>


section \<open>The polls of a wait\<close>

text \<open>
  The world at the \<open>k\<close>-th poll of a wait that begins in the world \<open>w\<close>, counted from
  0, when no poll before it has given a receipt: a pass of the loop without a receipt is
  one request for the receipt and a sleep of two seconds.
\<close>

primrec poll_world :: "web3 \<Rightarrow> string \<Rightarrow> nat \<Rightarrow> world \<Rightarrow> world" where
  "poll_world W tx_hash 0 w = w"
| "poll_world W tx_hash (Suc k) w =
     poll_world W tx_hash k
       (let w1 = request W w (Ev_get_transaction_receipt tx_hash)
        in w1\<lparr>now := now w1 + 2000, trace := trace w1 @ [Ev_sleep 2]\<rparr>)"

section \<open>A node and libraries to run the modules on\<close>

text \<open>
  Concrete collaborators, for running the definitions: a node on which the sender
  holds \<open>b\<close> wei and has sent \<open>n\<close> transactions, whose receipts arrive at the time
  \<open>mined\<close>, and a token contract that answers \<open>decimals()\<close> with \<open>d\<close>.
\<close>

definition test_web3 :: "nat \<Rightarrow> nat \<Rightarrow> nat \<Rightarrow> py_exception + nat \<Rightarrow> web3" where
  "test_web3 b n mined d =
     \<lparr>is_address = (\<lambda>a. startswith a ''0x''),
      to_checksum_address = (\<lambda>a. a),
      to_wei_ether = (\<lambda>x. case x of Finite r \<Rightarrow> Inr \<lfloor>r * 10 ^ 18\<rfloor>
                              | _ \<Rightarrow> Inl (ValueError ''not a number'')),
      eth_get_balance = (\<lambda>w a. Inr b),
      eth_gas_price = (\<lambda>w. Inr 5000000000),
      eth_get_transaction_count = (\<lambda>w a. Inr (n + length (filter (\<lambda>ev. case ev of Ev_send_raw_transaction x \<Rightarrow> True | _ \<Rightarrow> False) (trace w)))),
      eth_send_raw_transaction = (\<lambda>w raw. Inr (''0xhash:'' @ raw)),
      eth_get_transaction_receipt =
        (\<lambda>w h. if mined \<le> now w
                then Receipt \<lparr>rc_status = 1, rc_gasUsed = 21000, rc_blockNumber = 7\<rparr>
                else Raises (Exception ''Transaction not found'')),
      latency = (\<lambda>w. 100),
      call_name = (\<lambda>w c. Inr ''Token''),
      call_symbol = (\<lambda>w c. Inr ''TKN''),
      call_decimals = (\<lambda>w c. d),
      call_totalSupply = (\<lambda>w c. Inr 1000000),
      call_balanceOf = (\<lambda>w c a. Inr b),
      encode_transfer = (\<lambda>c a v. if v < 0 then Inl (Exception ''not a uint256'')
                                  else Inr (''transfer:'' @ a @ '':'' @ str_int v)),
      account_from_key = (\<lambda>k. Inr (''0xaddr:'' @ k)),
      account_sign_transaction = (\<lambda>t k. Inr (''signed:'' @ str_nat (tx_nonce t))),
      float_repr = (\<lambda>x. ''<float>'')\<rparr>"

definition world0 :: world where
  "world0 = \<lparr>now = 0, trace = []\<rparr>"

definition test_libs :: wallet_libs where
  "test_libs =
     \<lparr>mnemo_generate = (\<lambda>strength bytes. Inr (''words:'' @ bytes)),
      mnemo_check = (\<lambda>m. Inr (startswith m ''words:'')),
      seed_generate = (\<lambda>m. ''seed:'' @ m),
      master_key = (\<lambda>s. ''m''),
      child_key = (\<lambda>k i. k @ CHR ''/'' # path_elem i),
      key_to_hex = (\<lambda>k. k),
      account_of_key = (\<lambda>k. Inr (''0xaddr:'' @ k, ''pub:'' @ k))\<rparr>"

section \<open>Properties of signing\<close>

lemma hex_not_prefixed:
  assumes "list_all is_hex_digit k"
  shows "\<not> startswith k ''0x''"
proof
  assume "startswith k ''0x''"
  then have "take (Suc (Suc 0)) k = ''0x''" by (simp add: startswith_def)
  then obtain r where "k = CHR ''0'' # CHR ''x'' # r"
    by (cases k; cases "tl k") (auto split: if_splits)
  with assms show False by (simp add: is_hex_digit_def)
qed

text \<open>
  C10. For a key \<open>k\<close> of hexadecimal digits, signing with \<open>0x\<close> followed by \<open>k\<close> gives
  what signing with \<open>k\<close> gives, in both modules: result and effect on the world.
\<close>

theorem sign_transaction_prefix_interchangeable:
  assumes "list_all is_hex_digit k"
  shows "BNBTransfer_sign_transaction W w t (''0x'' @ k) = BNBTransfer_sign_transaction W w t k
       \<and> TokenTransfer_sign_transaction W w t (''0x'' @ k) = TokenTransfer_sign_transaction W w t k"
proof -
  have a: "\<not> startswith k ''0x''" using assms by (rule hex_not_prefixed)
  have b: "startswith (''0x'' @ k) ''0x''" by (simp add: startswith_def)
  have c: "drop 2 (''0x'' @ k) = k" by simp
  show ?thesis
    unfolding BNBTransfer_sign_transaction_def TokenTransfer_sign_transaction_def Let_def
    using a b c by simp
qed

theorem sign_transaction_prefix_interchangeable_witness:
  "list_all is_hex_digit ''4c0883a6'' \<and>
   (\<forall>W w t.
      BNBTransfer_sign_transaction W w t ''0x4c0883a6''
        = BNBTransfer_sign_transaction W w t ''4c0883a6''
    \<and> TokenTransfer_sign_transaction W w t ''0x4c0883a6''
        = TokenTransfer_sign_transaction W w t ''4c0883a6'')"
proof -
  have h: "list_all is_hex_digit ''4c0883a6''" by (simp add: is_hex_digit_def)
  show ?thesis using h sign_transaction_prefix_interchangeable [OF h] by simp
qed

section \<open>Properties of broadcasting\<close>

lemma TokenTransfer_broadcast_reraises:
  assumes "eth_send_raw_transaction W w s = Inl e"
  shows "fst (TokenTransfer_broadcast_transaction W w s) = Inl e"
  using assms by (simp add: TokenTransfer_broadcast_transaction_def Let_def)

lemma BNBTransfer_broadcast_unmatched:
  assumes "eth_send_raw_transaction W w s = Inl e"
    and "\<not> py_in ''insufficient funds'' (lower (str_exc e))"
    and "\<not> py_in ''nonce too low'' (lower (str_exc e))"
    and "\<not> py_in ''nonce too high'' (lower (str_exc e))"
    and "\<not> py_in ''gas price too low'' (lower (str_exc e))"
    and "\<not> py_in ''intrinsic gas too low'' (lower (str_exc e))"
    and "\<not> py_in ''connection'' (lower (str_exc e))"
    and "\<not> py_in ''timeout'' (lower (str_exc e))"
  shows "fst (BNBTransfer_broadcast_transaction W w s)
           = Inl (ValueError (''Transaction broadcast failed: '' @ str_exc e))"
  using assms by (simp add: BNBTransfer_broadcast_transaction_def Let_def)

text \<open>
  C6. The native module classifies a failed submission; the token module does not. At a
  node that answers \<open>Nonce too low\<close>, \<open>BNBTransfer.broadcast_transaction\<close> raises the
  classified \<open>ValueError\<close>, and \<open>TokenTransfer.broadcast_transaction\<close> raises the node's
  error as it came.
\<close>

theorem token_broadcast_surfaces_raw_error:
  "fst (BNBTransfer_broadcast_transaction
          (W\<lparr>eth_send_raw_transaction := \<lambda>w s. Inl (Exception ''Nonce too low'')\<rparr>) w s)
     = Inl (ValueError (''Nonce too low: This transaction has already been processed or there''
                        @ [CHR 39] @ ''s a nonce conflict.''))
   \<and> fst (TokenTransfer_broadcast_transaction
          (W\<lparr>eth_send_raw_transaction := \<lambda>w s. Inl (Exception ''Nonce too low'')\<rparr>) w s)
     = Inl (Exception ''Nonce too low'')"
  by (simp add: TokenTransfer_broadcast_transaction_def BNBTransfer_broadcast_transaction_def
      Let_def lower_def lower_char_def startswith_def)

section \<open>Properties of the float model\<close>

lemma round_half_even_of_int: "round_half_even (of_int n) = n"
  by (simp add: round_half_even_def)

lemma bitlen_rat_bounds:
  assumes "0 < p"
  shows "2 powi (bitlen p - 1) \<le> (of_int p :: rat)" and "(of_int p :: rat) < 2 powi (bitlen p)"
proof -
  from bitlen_bounds [OF assms]
  have a: "2 ^ nat (bitlen p - 1) \<le> p" and b: "p < 2 ^ nat (bitlen p)" by simp_all
  have ge1: "1 \<le> bitlen p" using assms by (auto simp: bitlen_alt_def)
  have "(of_int (2 ^ nat (bitlen p - 1)) :: rat) \<le> of_int p" using a by (simp only: of_int_le_iff)
  then show "2 powi (bitlen p - 1) \<le> (of_int p :: rat)"
    using ge1 by (simp add: power_int_def)
  have "(of_int p :: rat) < of_int (2 ^ nat (bitlen p))" using b by (simp only: of_int_less_iff)
  then show "(of_int p :: rat) < 2 powi (bitlen p)"
    using ge1 by (simp add: power_int_def)
qed

lemma ilog2_bounds:
  assumes "x \<noteq> 0"
  shows "2 powi (ilog2 x) \<le> \<bar>x\<bar>" and "\<bar>x\<bar> < 2 powi (ilog2 x + 1)"
proof -
  obtain p q where pq: "quotient_of \<bar>x\<bar> = (p, q)" by (cases "quotient_of \<bar>x\<bar>")
  have q: "0 < q" using pq by (rule quotient_of_denom_pos)
  have x: "\<bar>x\<bar> = of_int p / of_int q" using pq by (rule quotient_of_div)
  have "0 < \<bar>x\<bar>" using assms by simp
  then have p: "0 < p" using q x by (simp add: zero_less_divide_iff)
  define d where "d = bitlen p - bitlen q"
  note bp = bitlen_rat_bounds [OF p] and bq = bitlen_rat_bounds [OF q]
  have qpos: "0 < (of_int q :: rat)" using q by simp
  have up: "\<bar>x\<bar> < 2 powi (d + 1)"
  proof -
    have "of_int p / of_int q < (2 powi (bitlen p) :: rat) / of_int q"
      using bp(2) qpos by (simp add: divide_strict_right_mono)
    also have "\<dots> \<le> 2 powi (bitlen p) / 2 powi (bitlen q - 1)"
      using bq(1) by (simp add: frac_le)
    also have "\<dots> = 2 powi (d + 1)"
      by (simp add: d_def power_int_diff [symmetric] algebra_simps)
    finally show ?thesis using x by simp
  qed
  have lo: "2 powi (d - 1) \<le> \<bar>x\<bar>"
  proof -
    have "(2 powi (d - 1) :: rat) = 2 powi (bitlen p - 1) / 2 powi (bitlen q)"
      by (simp add: d_def power_int_diff [symmetric] algebra_simps)
    also have "\<dots> \<le> of_int p / 2 powi (bitlen q)"
      using bp(1) by (simp add: divide_right_mono)
    also have "\<dots> \<le> of_int p / of_int q"
      using bq(2) qpos p by (simp add: frac_le)
    finally show ?thesis using x by simp
  qed
  have il: "ilog2 x = (if 2 powi d \<le> \<bar>x\<bar> then d else d - 1)"
    by (simp add: ilog2_def pq d_def Let_def)
  show "2 powi (ilog2 x) \<le> \<bar>x\<bar>" using lo by (simp add: il)
  show "\<bar>x\<bar> < 2 powi (ilog2 x + 1)" using up by (auto simp add: il)
qed

text \<open>
  A number with a significand below \<open>2 ^ 53\<close> and an exponent from \<open>-1074\<close> on, within
  range, is a binary64 value: rounding leaves it as it is.
\<close>

lemma binary64_exact:
  assumes x: "x = of_int m * 2 powi k"
    and m: "\<bar>m\<bar> < 2 ^ 53"
    and k: "- 1074 \<le> k"
    and r: "\<bar>x\<bar> < 2 ^ 1024"
  shows "binary64 x = Some x"
proof (cases "x = 0")
  case True
  then show ?thesis by (simp add: binary64_def)
next
  case False
  define q where "q = max (ilog2 x - 52) (- 1074)"
  have "2 powi (ilog2 x) \<le> \<bar>x\<bar>" using False by (rule ilog2_bounds)
  also have "\<bar>x\<bar> = of_int \<bar>m\<bar> * 2 powi k" by (simp add: x abs_mult)
  also have "\<dots> < 2 ^ 53 * 2 powi k"
  proof -
    have "(of_int \<bar>m\<bar> :: rat) < of_int (2 ^ 53)" using m by (simp only: of_int_less_iff)
    then show ?thesis by simp
  qed
  also have "\<dots> = 2 powi (53 + k)" by (simp add: power_int_add)
  finally have lt: "(2 powi (ilog2 x) :: rat) < 2 powi (53 + k)" .
  have "ilog2 x < 53 + k"
  proof (rule ccontr)
    assume "\<not> ilog2 x < 53 + k"
    then have "53 + k \<le> ilog2 x" by simp
    then have "(2 powi (53 + k) :: rat) \<le> 2 powi (ilog2 x)"
      by (intro power_int_increasing) simp_all
    with lt show False by simp
  qed
  then have qk: "q \<le> k" using k by (simp add: q_def)
  have "(2 powi k :: rat) = 2 powi (k - q) * 2 powi q"
    by (simp add: power_int_add [symmetric])
  also have "(2 powi (k - q) :: rat) = of_int (2 ^ nat (k - q))"
    using qk by (simp add: power_int_def)
  finally have quot: "x / 2 powi q = of_int (m * 2 ^ nat (k - q))"
    by (simp add: x)
  then have "round_half_even (x / 2 powi q) = m * 2 ^ nat (k - q)"
    by (simp only: round_half_even_of_int)
  then have "of_int (round_half_even (x / 2 powi q)) * 2 powi q = x"
    using quot by (metis nonzero_divide_eq_eq power_int_eq_0_iff zero_neq_numeral)
  then show ?thesis using False r by (simp add: binary64_def q_def [symmetric] Let_def)
qed

lemma binary64_int:
  assumes "\<bar>n\<bar> < 2 ^ 53"
  shows "binary64 (of_int n) = Some (of_int n)"
proof -
  have "\<bar>of_int n :: rat\<bar> < of_int (2 ^ 53)"
    using assms by (simp only: of_int_abs [symmetric] of_int_less_iff)
  then have "\<bar>of_int n :: rat\<bar> < 2 ^ 1024" by simp
  then show ?thesis
    using binary64_exact [of "of_int n" n 0] assms by simp
qed

text \<open>\<open>10 ^ d\<close> is a binary64 value up to \<open>d = 22\<close>, since \<open>5 ^ 22 < 2 ^ 53\<close>.\<close>

lemma binary64_power_of_ten:
  assumes "d \<le> 22"
  shows "binary64 (10 ^ d) = Some (10 ^ d)"
proof -
  have "(5::int) ^ d \<le> 5 ^ 22" using assms by (intro power_increasing) simp_all
  then have m: "\<bar>(5::int) ^ d\<bar> < 2 ^ 53" by simp
  have x: "(10 ^ d :: rat) = of_int (5 ^ d) * 2 powi (int d)"
    by (simp add: power_mult_distrib [symmetric])
  have "(10 ^ d :: rat) \<le> 10 ^ 22" using assms by (intro power_increasing) simp_all
  then have r: "\<bar>10 ^ d :: rat\<bar> < 2 ^ 1024" by simp
  show ?thesis using binary64_exact [OF x m _ r] by simp
qed

lemma float_of_int_power_of_ten:
  assumes "d \<le> 22"
  shows "float_of_int (10 ^ d) = Inr (Finite (10 ^ d))"
  using binary64_power_of_ten [OF assms] by (simp add: float_of_int_def)












text \<open>
  Rounding to the nearest integer, ties to the even one, by what it has to satisfy.
\<close>

lemma round_half_even_eqI:
  assumes "\<bar>x - of_int m\<bar> < 1 / 2 \<or> (\<bar>x - of_int m\<bar> = 1 / 2 \<and> even m)"
  shows "round_half_even x = m"
proof -
  define f where "f = \<lfloor>x\<rfloor>"
  have lo: "of_int f \<le> x" and hi: "x < of_int f + 1"
    unfolding f_def by linarith+
  have d: "\<bar>x - of_int m\<bar> \<le> 1 / 2" using assms by auto
  from d have dd: "x - of_int m \<le> 1 / 2 \<and> - (x - of_int m) \<le> 1 / 2"
    by (simp only: abs_le_iff)
  have d1: "x - of_int m \<le> 1 / 2" and d2: "of_int m - x \<le> 1 / 2"
    using dd by linarith+
  have "(of_int f :: rat) < of_int m + 1" using lo d1 by linarith
  then have "(of_int f :: rat) < of_int (m + 1)" by simp
  then have u: "f \<le> m" by simp
  have "(of_int m :: rat) - 2 < of_int f" using hi d2 by linarith
  then have "(of_int (m - 2) :: rat) < of_int f" by simp
  then have l: "m - 1 \<le> f" by simp
  have r: "round_half_even x =
      (if x - of_int f < 1 / 2 then f else if 1 / 2 < x - of_int f then f + 1
       else if even f then f else f + 1)"
    by (simp add: round_half_even_def Let_def f_def)
  consider "f = m" | "f = m - 1" using u l by linarith
  then show ?thesis
  proof cases
    case 1
    then have "x - of_int f < 1 / 2 \<or> (x - of_int f = 1 / 2 \<and> even f)"
      using assms lo by auto
    then show ?thesis using 1 by (auto simp add: r)
  next
    case 2
    then have "1 / 2 < x - of_int f \<or> (x - of_int f = 1 / 2 \<and> odd f)"
      using assms hi by auto
    then show ?thesis using 2 by (auto simp add: r)
  qed
qed

text \<open>
  The exponent is determined by its two bounds, so the value of \<open>binary64\<close> at a given
  number follows from a few comparisons of numerals.
\<close>

lemma ilog2_unique:
  assumes lo: "2 powi e \<le> \<bar>x\<bar>" and hi: "\<bar>x\<bar> < 2 powi (e + 1)"
  shows "ilog2 x = e"
proof -
  have "(0::rat) < 2 powi e" by simp
  with lo have "0 < \<bar>x\<bar>" by linarith
  then have nz: "x \<noteq> 0" by simp
  note b = ilog2_bounds [OF nz]
  have "\<not> ilog2 x < e"
  proof
    assume "ilog2 x < e"
    then have "ilog2 x + 1 \<le> e" by simp
    then have "(2 powi (ilog2 x + 1) :: rat) \<le> 2 powi e"
      by (intro power_int_increasing) simp_all
    with b(2) lo show False by simp
  qed
  moreover have "\<not> e < ilog2 x"
  proof
    assume "e < ilog2 x"
    then have "e + 1 \<le> ilog2 x" by simp
    then have "(2 powi (e + 1) :: rat) \<le> 2 powi (ilog2 x)"
      by (intro power_int_increasing) simp_all
    with b(1) hi show False by simp
  qed
  ultimately show ?thesis by simp
qed

lemma binary64_eval:
  assumes lo: "2 powi e \<le> \<bar>x\<bar>" and hi: "\<bar>x\<bar> < 2 powi (e + 1)"
    and q: "q = max (e - 52) (- 1074)"
    and m: "\<bar>x / 2 powi q - of_int m\<bar> < 1 / 2
            \<or> (\<bar>x / 2 powi q - of_int m\<bar> = 1 / 2 \<and> even m)"
    and y: "y = of_int m * 2 powi q"
    and r: "\<bar>y\<bar> < 2 ^ 1024"
  shows "binary64 x = Some y"
proof -
  have "(0::rat) < 2 powi e" by simp
  with lo have "0 < \<bar>x\<bar>" by linarith
  then have nz: "x \<noteq> 0" by simp
  have e: "ilog2 x = e" using lo hi by (rule ilog2_unique)
  have m': "round_half_even (x / 2 powi q) = m" using m by (rule round_half_even_eqI)
  show ?thesis
    using nz r by (simp add: binary64_def e q [symmetric] Let_def m' y [symmetric])
qed



lemma binary64_one_wei_short: "binary64 ((10 ^ 18 - 1) / 10 ^ 18) = Some 1"
proof (rule binary64_eval [where e = "- 1" and q = "- 53" and m = 9007199254740992])
  show "2 powi (- 1) \<le> \<bar>(10 ^ 18 - 1) / 10 ^ 18 :: rat\<bar>" by simp
  show "\<bar>(10 ^ 18 - 1) / 10 ^ 18 :: rat\<bar> < 2 powi (- 1 + 1)" by simp
  show "(- 53 :: int) = max (- 1 - 52) (- 1074)" by simp
  show "\<bar>(10 ^ 18 - 1) / 10 ^ 18 / 2 powi (- 53) - of_int 9007199254740992 :: rat\<bar> < 1 / 2
      \<or> (\<bar>(10 ^ 18 - 1) / 10 ^ 18 / 2 powi (- 53) - of_int 9007199254740992 :: rat\<bar> = 1 / 2
          \<and> even (9007199254740992 :: int))"
    by (simp add: power_int_minus)
  show "(1 :: rat) = of_int 9007199254740992 * 2 powi (- 53)"
    by (simp add: power_int_minus)
  show "\<bar>1 :: rat\<bar> < 2 ^ 1024" by simp
qed




lemma binary64_one: "binary64 1 = Some 1"
  using binary64_int [of 1] by simp




section \<open>Properties of the conversions\<close>























section \<open>Properties of building a transaction\<close>

lemma trace_request [simp]: "trace (request W w ev) = trace w @ [ev]"
  by (simp add: request_def)

lemma now_request [simp]: "now (request W w ev) = now w + latency W w"
  by (simp add: request_def)

lemma snd_estimate_gas_price [simp]: "snd (estimate_gas_price W w) = request W w Ev_gas_price"
  by (simp add: estimate_gas_price_def Let_def split: sum.splits)

lemma create_transaction_nonce:
  assumes "create_transaction W w from_address to_address amount_bnb gas_price = (Inr tx, w')"
  shows "eth_get_transaction_count W
             (case gas_price of None \<Rightarrow> request W w Ev_gas_price | Some g \<Rightarrow> w)
             (to_checksum_address W from_address) = Inr (tx_nonce tx)
         \<and> w' = request W (case gas_price of None \<Rightarrow> request W w Ev_gas_price | Some g \<Rightarrow> w)
                  (Ev_get_transaction_count (to_checksum_address W from_address))"
proof (cases gas_price)
  case None
  obtain g where g: "estimate_gas_price W w = (g, request W w Ev_gas_price)"
    using snd_estimate_gas_price [of W w] by (cases "estimate_gas_price W w") simp
  show ?thesis using assms None g
    by (auto simp add: create_transaction_def Let_def split: if_splits sum.splits)
next
  case (Some g)
  show ?thesis using assms Some
    by (auto simp add: create_transaction_def Let_def split: if_splits sum.splits)
qed

lemma get_token_info_decimals:
  assumes "get_token_contract W token_address abi = Inr c"
  shows "\<exists>info w4.
           get_token_info W w token_address abi = (Inr info, w4)
         \<and> ti_decimals info =
             (case call_decimals W
                     (request W (request W w (Ev_contract_call (contract_address c) ''name''))
                        (Ev_contract_call (contract_address c) ''symbol'')) c
              of Inr v \<Rightarrow> v | Inl e \<Rightarrow> 18)
         \<and> trace w4 = trace w @ map (Ev_contract_call (contract_address c))
                                   [''name'', ''symbol'', ''decimals'', ''totalSupply'']"
  using assms by (simp add: get_token_info_def Let_def)

lemma create_token_transfer_transaction_parts:
  assumes "create_token_transfer_transaction W w token_address from_address to_address amount
             abi gas_price = (Inr tx, w')"
  shows "\<exists>c info w4 n payload w3.
           get_token_contract W token_address abi = Inr c
         \<and> get_token_info W w token_address abi = (Inr info, w4)
         \<and> amount_raw_of amount (ti_decimals info) = Inr n
         \<and> encode_transfer W c (to_checksum_address W to_address) n = Inr payload
         \<and> tx_data tx = Some payload
         \<and> w3 = (case gas_price of None \<Rightarrow> request W w4 Ev_gas_price | Some g \<Rightarrow> w4)
         \<and> w' = request W w3 (Ev_get_transaction_count (to_checksum_address W from_address))
         \<and> eth_get_transaction_count W w3 (to_checksum_address W from_address)
             = Inr (tx_nonce tx)"
proof -
  obtain c where c: "get_token_contract W token_address abi = Inr c"
    using assms by (cases "get_token_contract W token_address abi")
      (simp_all add: create_token_transfer_transaction_def)
  obtain info w4 where i: "get_token_info W w token_address abi = (Inr info, w4)"
    using get_token_info_decimals [OF c] by blast
  obtain n where n: "amount_raw_of amount (ti_decimals info) = Inr n"
    using assms c i by (cases "amount_raw_of amount (ti_decimals info)")
      (simp_all add: create_token_transfer_transaction_def Let_def split: if_splits)
  show ?thesis
  proof (cases gas_price)
    case None
    obtain g where g: "estimate_gas_price W w4 = (g, request W w4 Ev_gas_price)"
      using snd_estimate_gas_price [of W w4] by (cases "estimate_gas_price W w4") simp
    show ?thesis using assms c i n None g
      by (auto simp add: create_token_transfer_transaction_def Let_def
          split: if_splits sum.splits)
  next
    case (Some g)
    show ?thesis using assms c i n Some
      by (auto simp add: create_token_transfer_transaction_def Let_def
          split: if_splits sum.splits)
  qed
qed

text \<open>The two builders run on the test node.\<close>

lemma test_create_transaction:
  "create_transaction (test_web3 b n m d) w ''0xfrom'' ''0xto'' (Finite 1) None =
     (Inr \<lparr>tx_nonce = n + length (filter (\<lambda>ev. case ev of Ev_send_raw_transaction x \<Rightarrow> True | _ \<Rightarrow> False) (trace w)),
            tx_to = ''0xto'', tx_value = 1000000000000000000,
            tx_gas = 21000, tx_gasPrice = 5000000000, tx_chainId = 97, tx_data = None\<rparr>,
      w\<lparr>now := now w + 200,
        trace := trace w @ [Ev_gas_price, Ev_get_transaction_count ''0xfrom'']\<rparr>)"
  by (simp add: create_transaction_def test_web3_def estimate_gas_price_def request_def
      startswith_def Let_def DEFAULT_GAS_LIMIT_def BSC_TESTNET_CHAIN_ID_def)

lemma test_create_token_transfer_transaction:
  assumes "amount_raw_of amount (case d of Inr v \<Rightarrow> v | Inl e \<Rightarrow> 18) = Inr r" and "0 \<le> r"
  shows "create_token_transfer_transaction (test_web3 b n m d) w ''0xtoken'' ''0xfrom'' ''0xto''
           amount None None =
     (Inr \<lparr>tx_nonce = n + length (filter (\<lambda>ev. case ev of Ev_send_raw_transaction x \<Rightarrow> True | _ \<Rightarrow> False) (trace w)),
            tx_to = ''0xtoken'', tx_value = 0,
            tx_gas = 100000, tx_gasPrice = 5000000000, tx_chainId = 97,
            tx_data = Some (''transfer:0xto:'' @ str_int r)\<rparr>,
      w\<lparr>now := now w + 600,
        trace := trace w @ [Ev_contract_call ''0xtoken'' ''name'',
                            Ev_contract_call ''0xtoken'' ''symbol'',
                            Ev_contract_call ''0xtoken'' ''decimals'',
                            Ev_contract_call ''0xtoken'' ''totalSupply'',
                            Ev_gas_price, Ev_get_transaction_count ''0xfrom'']\<rparr>)"
  using assms
  by (simp add: create_token_transfer_transaction_def get_token_contract_def get_token_info_def
      test_web3_def estimate_gas_price_def request_def startswith_def Let_def
      TOKEN_TRANSFER_GAS_LIMIT_def BSC_TESTNET_CHAIN_ID_def)

lemma amount_raw_of_one: "amount_raw_of (Finite 1) 18 = Inr 1000000000000000000"
proof -
  have "float_mul (Finite 1) (Finite (10 ^ 18)) = Finite (10 ^ 18)"
    using binary64_power_of_ten [of 18] by (simp add: round_float_def)
  then show ?thesis
    using float_of_int_power_of_ten [of 18] by (simp add: amount_raw_of_def py_int_def)
qed




lemma snd_get_token_info:
  assumes "get_token_contract W token_address abi = Inr c"
  shows "snd (get_token_info W w token_address abi) =
     request W (request W (request W (request W w
       (Ev_contract_call (to_checksum_address W token_address) ''name''))
       (Ev_contract_call (to_checksum_address W token_address) ''symbol''))
       (Ev_contract_call (to_checksum_address W token_address) ''decimals''))
       (Ev_contract_call (to_checksum_address W token_address) ''totalSupply'')"
proof -
  have "contract_address c = to_checksum_address W token_address"
    using assms by (auto simp add: get_token_contract_def Let_def split: if_splits)
  then show ?thesis using assms by (simp add: get_token_info_def Let_def)
qed

text \<open>
  C9. In a transaction that \<open>create_transaction\<close> or
  \<open>create_token_transfer_transaction\<close> returns, the nonce is the node's reply to a
  \<open>get_transaction_count\<close> request for the sender, made by this very call as its last
  request and answered on the state the node is in at that moment: the world the call
  started in, advanced by the requests the call has made before (the four calls of
  \<open>get_token_info\<close> for a token, and the gas price when none is given). Nothing is
  kept from an earlier call.
\<close>

theorem nonce_read_fresh:
  "(create_transaction W w from_address to_address amount_bnb gas_price = (Inr tx, w') \<longrightarrow>
      (\<exists>w1. w1 = (case gas_price of None \<Rightarrow> request W w Ev_gas_price | Some g \<Rightarrow> w)
         \<and> eth_get_transaction_count W w1 (to_checksum_address W from_address)
             = Inr (tx_nonce tx)
         \<and> w' = request W w1 (Ev_get_transaction_count (to_checksum_address W from_address))))
   \<and> (create_token_transfer_transaction W w token_address from_address to_address amount abi
         gas_price = (Inr tx, w') \<longrightarrow>
      (\<exists>w4 w1.
           w4 = request W (request W (request W (request W w
                  (Ev_contract_call (to_checksum_address W token_address) ''name''))
                  (Ev_contract_call (to_checksum_address W token_address) ''symbol''))
                  (Ev_contract_call (to_checksum_address W token_address) ''decimals''))
                  (Ev_contract_call (to_checksum_address W token_address) ''totalSupply'')
         \<and> w1 = (case gas_price of None \<Rightarrow> request W w4 Ev_gas_price | Some g \<Rightarrow> w4)
         \<and> eth_get_transaction_count W w1 (to_checksum_address W from_address)
             = Inr (tx_nonce tx)
         \<and> w' = request W w1 (Ev_get_transaction_count (to_checksum_address W from_address))))"
proof (intro conjI impI)
  assume "create_transaction W w from_address to_address amount_bnb gas_price = (Inr tx, w')"
  from create_transaction_nonce [OF this]
  show "\<exists>w1. w1 = (case gas_price of None \<Rightarrow> request W w Ev_gas_price | Some g \<Rightarrow> w)
         \<and> eth_get_transaction_count W w1 (to_checksum_address W from_address)
             = Inr (tx_nonce tx)
         \<and> w' = request W w1 (Ev_get_transaction_count (to_checksum_address W from_address))"
    by blast
next
  assume "create_token_transfer_transaction W w token_address from_address to_address amount abi
         gas_price = (Inr tx, w')"
  from create_token_transfer_transaction_parts [OF this]
  obtain c info w4 w3 where c: "get_token_contract W token_address abi = Inr c"
    and i: "get_token_info W w token_address abi = (Inr info, w4)"
    and w3: "w3 = (case gas_price of None \<Rightarrow> request W w4 Ev_gas_price | Some g \<Rightarrow> w4)"
    and w': "w' = request W w3 (Ev_get_transaction_count (to_checksum_address W from_address))"
    and n: "eth_get_transaction_count W w3 (to_checksum_address W from_address)
              = Inr (tx_nonce tx)"
    by blast
  have "w4 = request W (request W (request W (request W w
                  (Ev_contract_call (to_checksum_address W token_address) ''name''))
                  (Ev_contract_call (to_checksum_address W token_address) ''symbol''))
                  (Ev_contract_call (to_checksum_address W token_address) ''decimals''))
                  (Ev_contract_call (to_checksum_address W token_address) ''totalSupply'')"
    using snd_get_token_info [OF c, of w] i by simp
  with w3 w' n show "\<exists>w4 w1.
           w4 = request W (request W (request W (request W w
                  (Ev_contract_call (to_checksum_address W token_address) ''name''))
                  (Ev_contract_call (to_checksum_address W token_address) ''symbol''))
                  (Ev_contract_call (to_checksum_address W token_address) ''decimals''))
                  (Ev_contract_call (to_checksum_address W token_address) ''totalSupply'')
         \<and> w1 = (case gas_price of None \<Rightarrow> request W w4 Ev_gas_price | Some g \<Rightarrow> w4)
         \<and> eth_get_transaction_count W w1 (to_checksum_address W from_address)
             = Inr (tx_nonce tx)
         \<and> w' = request W w1 (Ev_get_transaction_count (to_checksum_address W from_address))"
    by blast
qed

theorem nonce_read_fresh_witness:
  "(\<exists>tx. create_transaction (test_web3 5 3 2500 (Inr 18)) world0 ''0xfrom'' ''0xto''
               (Finite 1) None
             = (Inr tx, \<lparr>now = 200, trace = [Ev_gas_price, Ev_get_transaction_count ''0xfrom'']\<rparr>)
        \<and> tx_nonce tx = 3
        \<and> eth_get_transaction_count (test_web3 5 3 2500 (Inr 18))
              \<lparr>now = 100, trace = [Ev_gas_price]\<rparr> ''0xfrom'' = Inr (tx_nonce tx))
   \<and> (\<exists>tx. create_token_transfer_transaction (test_web3 5 3 2500 (Inr 18))
               \<lparr>now = 0, trace = [Ev_send_raw_transaction ''0xsigned'']\<rparr>
               ''0xtoken'' ''0xfrom'' ''0xto'' (Finite 1) None None
             = (Inr tx, \<lparr>now = 600,
                         trace = [Ev_send_raw_transaction ''0xsigned'',
                                  Ev_contract_call ''0xtoken'' ''name'',
                                  Ev_contract_call ''0xtoken'' ''symbol'',
                                  Ev_contract_call ''0xtoken'' ''decimals'',
                                  Ev_contract_call ''0xtoken'' ''totalSupply'',
                                  Ev_gas_price, Ev_get_transaction_count ''0xfrom'']\<rparr>)
        \<and> tx_nonce tx = 4
        \<and> eth_get_transaction_count (test_web3 5 3 2500 (Inr 18))
              \<lparr>now = 500,
               trace = [Ev_send_raw_transaction ''0xsigned'',
                        Ev_contract_call ''0xtoken'' ''name'',
                        Ev_contract_call ''0xtoken'' ''symbol'',
                        Ev_contract_call ''0xtoken'' ''decimals'',
                        Ev_contract_call ''0xtoken'' ''totalSupply'',
                        Ev_gas_price]\<rparr> ''0xfrom'' = Inr (tx_nonce tx))"
proof -
  let ?W = "test_web3 5 3 2500 (Inr 18)"
  let ?v = "\<lparr>now = 0, trace = [Ev_send_raw_transaction ''0xsigned'']\<rparr>"
  have l: "latency ?W = (\<lambda>w. 100)" and cs: "to_checksum_address ?W = (\<lambda>a. a)"
    by (simp_all add: test_web3_def)
  obtain tx w' where a: "create_transaction ?W world0 ''0xfrom'' ''0xto'' (Finite 1) None = (Inr tx, w')"
    and a3: "tx_nonce tx = 3"
    using test_create_transaction [of 5 3 2500 "Inr 18" world0] by (simp add: world0_def)
  have r: "amount_raw_of (Finite 1) (case (Inr 18 :: py_exception + nat) of Inr v \<Rightarrow> v | Inl e \<Rightarrow> 18)
             = Inr 1000000000000000000"
    using amount_raw_of_one by simp
  obtain tx2 w2' where b: "create_token_transfer_transaction ?W ?v ''0xtoken'' ''0xfrom'' ''0xto''
        (Finite 1) None None = (Inr tx2, w2')"
    and b4: "tx_nonce tx2 = 4"
    using test_create_token_transfer_transaction [OF r, of 5 3 2500 ?v] by simp
  note t1 = nonce_read_fresh [where W = ?W and w = world0 and from_address = "''0xfrom''"
      and to_address = "''0xto''" and amount_bnb = "Finite 1" and gas_price = None
      and tx = tx and w' = w', THEN conjunct1, rule_format, OF a]
  note t2 = nonce_read_fresh [where W = ?W and w = ?v and from_address = "''0xfrom''"
      and to_address = "''0xto''" and amount = "Finite 1" and gas_price = None
      and token_address = "''0xtoken''" and abi = None
      and tx = tx2 and w' = w2', THEN conjunct2, rule_format, OF b]
  from t1 have u1: "eth_get_transaction_count ?W \<lparr>now = 100, trace = [Ev_gas_price]\<rparr> ''0xfrom''
                      = Inr (tx_nonce tx)"
    and v1: "w' = \<lparr>now = 200, trace = [Ev_gas_price, Ev_get_transaction_count ''0xfrom'']\<rparr>"
    by (simp_all add: request_def l cs world0_def)
  from t2 have u2: "eth_get_transaction_count ?W
              \<lparr>now = 500,
               trace = [Ev_send_raw_transaction ''0xsigned'',
                        Ev_contract_call ''0xtoken'' ''name'',
                        Ev_contract_call ''0xtoken'' ''symbol'',
                        Ev_contract_call ''0xtoken'' ''decimals'',
                        Ev_contract_call ''0xtoken'' ''totalSupply'',
                        Ev_gas_price]\<rparr> ''0xfrom'' = Inr (tx_nonce tx2)"
    and v2: "w2' = \<lparr>now = 600,
                         trace = [Ev_send_raw_transaction ''0xsigned'',
                                  Ev_contract_call ''0xtoken'' ''name'',
                                  Ev_contract_call ''0xtoken'' ''symbol'',
                                  Ev_contract_call ''0xtoken'' ''decimals'',
                                  Ev_contract_call ''0xtoken'' ''totalSupply'',
                                  Ev_gas_price, Ev_get_transaction_count ''0xfrom'']\<rparr>"
    by (simp_all add: request_def l cs)
  show ?thesis using a a3 u1 v1 b b4 u2 v2 by blast
qed




section \<open>Properties of waiting for a receipt\<close>

text \<open>
  One pass of the loop: past the deadline it raises the timeout, on a receipt it
  returns, and otherwise it polls again two seconds and one request later.
\<close>

lemma wait_loop_done:
  assumes "\<not> int (now w) - int s < t * 1000"
  shows "wait_loop W msg h t s w = (Inl (TimeoutError (msg @ str_int t @ '' seconds'')), w)"
  using assms by (subst wait_loop.simps) simp

lemma wait_loop_receipt:
  assumes "int (now w) - int s < t * 1000"
    and "eth_get_transaction_receipt W w h = Receipt r"
  shows "wait_loop W msg h t s w =
     (Inr \<lparr>cf_tx_hash = h,
            cf_status = (if rc_status r = 1 then ''Success'' else ''Failed''),
            cf_gas_used = rc_gasUsed r,
            cf_block_number = rc_blockNumber r,
            cf_confirmation_time = now w + latency W w - s\<rparr>,
      request W w (Ev_get_transaction_receipt h))"
  using assms by (subst wait_loop.simps) (simp add: Let_def)

lemma wait_loop_retry:
  assumes "int (now w) - int s < t * 1000"
    and "\<forall>r. eth_get_transaction_receipt W w h \<noteq> Receipt r"
  shows "wait_loop W msg h t s w =
     wait_loop W msg h t s
       (w\<lparr>now := now w + latency W w + 2000,
          trace := trace w @ [Ev_get_transaction_receipt h, Ev_sleep 2]\<rparr>)"
  using assms
  by (subst wait_loop.simps) (simp add: Let_def request_def split: receipt_reply.splits)

text \<open>The polls follow one another in time.\<close>

lemma poll_world_Suc:
  "poll_world W h (Suc k) w =
     poll_world W h k (w\<lparr>now := now w + latency W w + 2000,
                         trace := trace w @ [Ev_get_transaction_receipt h, Ev_sleep 2]\<rparr>)"
  by (simp add: Let_def request_def)

lemma now_poll_world: "now w \<le> now (poll_world W h k w)"
proof (induction k arbitrary: w)
  case 0
  show ?case by simp
next
  case (Suc k)
  have "now w \<le> now (w\<lparr>now := now w + latency W w + 2000,
                         trace := trace w @ [Ev_get_transaction_receipt h, Ev_sleep 2]\<rparr>)"
    by simp
  also have "\<dots> \<le> now (poll_world W h (Suc k) w)"
    unfolding poll_world_Suc by (rule Suc.IH)
  finally show ?case .
qed

text \<open>
  The loop returns at the first poll that gives a receipt, if that poll begins before
  the deadline.
\<close>

lemma wait_loop_first_receipt:
  assumes "\<forall>j<k. \<forall>r'. eth_get_transaction_receipt W (poll_world W h j w) h \<noteq> Receipt r'"
    and "eth_get_transaction_receipt W (poll_world W h k w) h = Receipt r"
    and "int (now (poll_world W h k w)) - int s < t * 1000"
  shows "wait_loop W msg h t s w =
     (Inr \<lparr>cf_tx_hash = h,
            cf_status = (if rc_status r = 1 then ''Success'' else ''Failed''),
            cf_gas_used = rc_gasUsed r,
            cf_block_number = rc_blockNumber r,
            cf_confirmation_time
              = now (poll_world W h k w) + latency W (poll_world W h k w) - s\<rparr>,
      request W (poll_world W h k w) (Ev_get_transaction_receipt h))"
  using assms
proof (induction k arbitrary: w)
  case 0
  then show ?case by (simp add: wait_loop_receipt)
next
  case (Suc k)
  define w2 where "w2 = w\<lparr>now := now w + latency W w + 2000,
      trace := trace w @ [Ev_get_transaction_receipt h, Ev_sleep 2]\<rparr>"
  have p: "poll_world W h (Suc j) w = poll_world W h j w2" for j
    unfolding w2_def by (rule poll_world_Suc)
  have "int (now w) \<le> int (now (poll_world W h (Suc k) w))"
    using now_poll_world [of w W h "Suc k"] by simp
  with Suc.prems(3) have t: "int (now w) - int s < t * 1000" by linarith
  have "\<forall>r'. eth_get_transaction_receipt W (poll_world W h 0 w) h \<noteq> Receipt r'"
    using Suc.prems(1) by blast
  then have n: "\<forall>r'. eth_get_transaction_receipt W w h \<noteq> Receipt r'" by simp
  have eq: "wait_loop W msg h t s w = wait_loop W msg h t s w2"
    unfolding w2_def using t n by (rule wait_loop_retry)
  have a: "\<forall>j<k. \<forall>r'. eth_get_transaction_receipt W (poll_world W h j w2) h \<noteq> Receipt r'"
  proof (intro allI impI)
    fix j r'
    assume "j < k"
    then have "Suc j < Suc k" by simp
    with Suc.prems(1) show "eth_get_transaction_receipt W (poll_world W h j w2) h \<noteq> Receipt r'"
      unfolding p [symmetric] by blast
  qed
  have b: "eth_get_transaction_receipt W (poll_world W h k w2) h = Receipt r"
    using Suc.prems(2) unfolding p .
  have c: "int (now (poll_world W h k w2)) - int s < t * 1000"
    using Suc.prems(3) unfolding p .
  show ?case unfolding eq p by (rule Suc.IH [OF a b c])
qed

text \<open>The loop as a whole, by induction on the time left until the deadline.\<close>

lemma wait_loop_error:
  "wait_loop W msg h t s w = (Inl e, w') \<Longrightarrow> e = TimeoutError (msg @ str_int t @ '' seconds'')"
proof (induction "nat (t * 1000 - (int (now w) - int s))" arbitrary: w rule: less_induct)
  case less
  show ?case
  proof (cases "int (now w) - int s < t * 1000")
    case False
    then show ?thesis using less.prems by (simp add: wait_loop_done)
  next
    case True
    show ?thesis
    proof (cases "\<exists>r. eth_get_transaction_receipt W w h = Receipt r")
      case True
      then show ?thesis
        using less.prems \<open>int (now w) - int s < t * 1000\<close> by (auto simp add: wait_loop_receipt)
    next
      case False
      define w2 where "w2 = w\<lparr>now := now w + latency W w + 2000,
          trace := trace w @ [Ev_get_transaction_receipt h, Ev_sleep 2]\<rparr>"
      have eq: "wait_loop W msg h t s w = wait_loop W msg h t s w2"
        unfolding w2_def using True False by (intro wait_loop_retry) simp_all
      have "nat (t * 1000 - (int (now w2) - int s)) < nat (t * 1000 - (int (now w) - int s))"
        using True by (simp add: w2_def)
      from less.hyps [OF this] less.prems eq show ?thesis by simp
    qed
  qed
qed

text \<open>A result comes from the first poll that gave a receipt.\<close>

lemma wait_loop_success:
  "wait_loop W msg h t s w = (Inr c, w') \<Longrightarrow>
     \<exists>k r. (\<forall>j<k. \<forall>r'. eth_get_transaction_receipt W (poll_world W h j w) h \<noteq> Receipt r')
         \<and> eth_get_transaction_receipt W (poll_world W h k w) h = Receipt r
         \<and> int (now (poll_world W h k w)) - int s < t * 1000
         \<and> c = \<lparr>cf_tx_hash = h,
                 cf_status = (if rc_status r = 1 then ''Success'' else ''Failed''),
                 cf_gas_used = rc_gasUsed r,
                 cf_block_number = rc_blockNumber r,
                 cf_confirmation_time
                   = now (poll_world W h k w) + latency W (poll_world W h k w) - s\<rparr>
         \<and> w' = request W (poll_world W h k w) (Ev_get_transaction_receipt h)"
proof (induction "nat (t * 1000 - (int (now w) - int s))" arbitrary: w rule: less_induct)
  case less
  show ?case
  proof (cases "int (now w) - int s < t * 1000")
    case False
    then show ?thesis using less.prems by (simp add: wait_loop_done)
  next
    case True
    show ?thesis
    proof (cases "\<exists>r. eth_get_transaction_receipt W w h = Receipt r")
      case True
      then obtain r where r: "eth_get_transaction_receipt W w h = Receipt r" by blast
      from less.prems wait_loop_receipt [OF \<open>int (now w) - int s < t * 1000\<close> r, of msg]
      have "c = \<lparr>cf_tx_hash = h,
                 cf_status = (if rc_status r = 1 then ''Success'' else ''Failed''),
                 cf_gas_used = rc_gasUsed r,
                 cf_block_number = rc_blockNumber r,
                 cf_confirmation_time = now w + latency W w - s\<rparr>
         \<and> w' = request W w (Ev_get_transaction_receipt h)"
        by simp
      with r \<open>int (now w) - int s < t * 1000\<close> show ?thesis
        by (intro exI [of _ 0] exI [of _ r]) simp
    next
      case False
      define w2 where "w2 = w\<lparr>now := now w + latency W w + 2000,
          trace := trace w @ [Ev_get_transaction_receipt h, Ev_sleep 2]\<rparr>"
      have p: "poll_world W h (Suc j) w = poll_world W h j w2" for j
        unfolding w2_def by (rule poll_world_Suc)
      have eq: "wait_loop W msg h t s w = wait_loop W msg h t s w2"
        unfolding w2_def using True False by (intro wait_loop_retry) simp_all
      have "nat (t * 1000 - (int (now w2) - int s)) < nat (t * 1000 - (int (now w) - int s))"
        using True by (simp add: w2_def)
      from less.hyps [OF this] less.prems eq
      obtain k r where
        a: "\<forall>j<k. \<forall>r'. eth_get_transaction_receipt W (poll_world W h j w2) h \<noteq> Receipt r'"
        and b: "eth_get_transaction_receipt W (poll_world W h k w2) h = Receipt r"
        and c: "int (now (poll_world W h k w2)) - int s < t * 1000"
        and d: "c = \<lparr>cf_tx_hash = h,
                 cf_status = (if rc_status r = 1 then ''Success'' else ''Failed''),
                 cf_gas_used = rc_gasUsed r,
                 cf_block_number = rc_blockNumber r,
                 cf_confirmation_time
                   = now (poll_world W h k w2) + latency W (poll_world W h k w2) - s\<rparr>"
        and e: "w' = request W (poll_world W h k w2) (Ev_get_transaction_receipt h)"
        by auto
      have a': "\<forall>j<Suc k. \<forall>r'. eth_get_transaction_receipt W (poll_world W h j w) h \<noteq> Receipt r'"
      proof (intro allI impI)
        fix j r'
        assume j: "j < Suc k"
        show "eth_get_transaction_receipt W (poll_world W h j w) h \<noteq> Receipt r'"
        proof (cases j)
          case 0
          then show ?thesis using False by simp
        next
          case (Suc i)
          then have "i < k" using j by simp
          with a show ?thesis unfolding Suc p by blast
        qed
      qed
      from a' b c d e show ?thesis
        unfolding p [symmetric] by (intro exI [of _ "Suc k"] exI [of _ r]) blast
    qed
  qed
qed

text \<open>
  With no receipt at any poll before the deadline the loop ends in the timeout, at the
  first poll that begins at or after the deadline.
\<close>

lemma wait_loop_timeout:
  assumes none: "\<forall>k r. int (now (poll_world W h k w)) - int s < t * 1000
                   \<longrightarrow> eth_get_transaction_receipt W (poll_world W h k w) h \<noteq> Receipt r"
    and lat: "\<forall>v. latency W v \<le> L"
  shows "\<exists>k. wait_loop W msg h t s w
                = (Inl (TimeoutError (msg @ str_int t @ '' seconds'')), poll_world W h k w)
           \<and> t * 1000 \<le> int (now (poll_world W h k w)) - int s
           \<and> (k = 0 \<or> int (now (poll_world W h k w)) - int s < t * 1000 + 2000 + int L)"
  using none
proof (induction "nat (t * 1000 - (int (now w) - int s))" arbitrary: w rule: less_induct)
  case less
  show ?case
  proof (cases "int (now w) - int s < t * 1000")
    case False
    then have "wait_loop W msg h t s w
                = (Inl (TimeoutError (msg @ str_int t @ '' seconds'')), poll_world W h 0 w)
           \<and> t * 1000 \<le> int (now (poll_world W h 0 w)) - int s"
      by (simp add: wait_loop_done)
    then show ?thesis by blast
  next
    case True
    define w2 where "w2 = w\<lparr>now := now w + latency W w + 2000,
        trace := trace w @ [Ev_get_transaction_receipt h, Ev_sleep 2]\<rparr>"
    have p: "poll_world W h (Suc j) w = poll_world W h j w2" for j
      unfolding w2_def by (rule poll_world_Suc)
    have "int (now (poll_world W h 0 w)) - int s < t * 1000
            \<longrightarrow> (\<forall>r. eth_get_transaction_receipt W (poll_world W h 0 w) h \<noteq> Receipt r)"
      using less.prems by blast
    then have "\<forall>r. eth_get_transaction_receipt W w h \<noteq> Receipt r" using True by simp
    with True have eq: "wait_loop W msg h t s w = wait_loop W msg h t s w2"
      unfolding w2_def by (rule wait_loop_retry)
    have m: "nat (t * 1000 - (int (now w2) - int s)) < nat (t * 1000 - (int (now w) - int s))"
      using True by (simp add: w2_def)
    have n2: "\<forall>k r. int (now (poll_world W h k w2)) - int s < t * 1000
                   \<longrightarrow> eth_get_transaction_receipt W (poll_world W h k w2) h \<noteq> Receipt r"
      unfolding p [symmetric] using less.prems by blast
    from less.hyps [OF m n2]
    obtain k where r: "wait_loop W msg h t s w2
                = (Inl (TimeoutError (msg @ str_int t @ '' seconds'')), poll_world W h k w2)"
      and lo: "t * 1000 \<le> int (now (poll_world W h k w2)) - int s"
      and hi: "k = 0 \<or> int (now (poll_world W h k w2)) - int s < t * 1000 + 2000 + int L"
      by blast
    have "latency W w \<le> L" using lat by blast
    then have "int (now w2) - int s < t * 1000 + 2000 + int L"
      using True by (simp add: w2_def)
    with hi have "int (now (poll_world W h k w2)) - int s < t * 1000 + 2000 + int L" by auto
    with r lo eq show ?thesis
      unfolding p [symmetric] by (intro exI [of _ "Suc k"]) simp
  qed
qed

text \<open>The polls of a wait on the test node.\<close>

lemma test_poll_world:
  "poll_world (test_web3 b n m d) h 0 world0 = \<lparr>now = 0, trace = []\<rparr>"
  "poll_world (test_web3 b n m d) h 1 world0
     = \<lparr>now = 2100, trace = [Ev_get_transaction_receipt h, Ev_sleep 2]\<rparr>"
  "poll_world (test_web3 b n m d) h 2 world0
     = \<lparr>now = 4200, trace = [Ev_get_transaction_receipt h, Ev_sleep 2,
                             Ev_get_transaction_receipt h, Ev_sleep 2]\<rparr>"
proof -
  have l: "latency (test_web3 b n m d) = (\<lambda>w. 100)" by (simp add: test_web3_def)
  show "poll_world (test_web3 b n m d) h 0 world0 = \<lparr>now = 0, trace = []\<rparr>"
    by (simp add: world0_def)
  have "poll_world (test_web3 b n m d) h (Suc 0) world0
     = \<lparr>now = 2100, trace = [Ev_get_transaction_receipt h, Ev_sleep 2]\<rparr>"
    by (simp add: poll_world_Suc l world0_def del: poll_world.simps(2))
  then show "poll_world (test_web3 b n m d) h 1 world0
     = \<lparr>now = 2100, trace = [Ev_get_transaction_receipt h, Ev_sleep 2]\<rparr>"
    by simp
  have "poll_world (test_web3 b n m d) h (Suc (Suc 0)) world0
     = \<lparr>now = 4200, trace = [Ev_get_transaction_receipt h, Ev_sleep 2,
                             Ev_get_transaction_receipt h, Ev_sleep 2]\<rparr>"
    by (simp add: poll_world_Suc l world0_def del: poll_world.simps(2))
  then show "poll_world (test_web3 b n m d) h 2 world0
     = \<lparr>now = 4200, trace = [Ev_get_transaction_receipt h, Ev_sleep 2,
                             Ev_get_transaction_receipt h, Ev_sleep 2]\<rparr>"
    by (simp add: numeral_2_eq_2)
qed

text \<open>
  C7. \<open>wait_for_confirmation\<close> of either module is a total function: the loop ends,
  since every pass moves the clock at least two seconds toward the deadline. The polls
  of a wait are made in the worlds \<open>poll_world W tx_hash k w\<close>, for \<open>k\<close> from 0.

  \<^item> If no poll that begins before the deadline gives a receipt, and a request takes at
    most \<open>L\<close> milliseconds, the module's \<open>TimeoutError\<close> is raised, no sooner than the
    timeout and less than one sleep of two seconds plus one request after it.
  \<^item> A poll that raises or gives nothing is not an error: the only exception that
    leaves the function is the timeout.
  \<^item> If the \<open>k\<close>-th poll begins before the deadline and is the first to give a receipt,
    the function returns at that poll, with the status \<open>Success\<close> when the receipt's
    status is 1 and \<open>Failed\<close> otherwise, and the receipt's gas and block number.
  \<^item> Every result is of that kind.
\<close>

theorem wait_for_confirmation_outcomes:
  "((\<forall>k r. int (now (poll_world W tx_hash k w)) - int (now w) < timeout * 1000
              \<longrightarrow> eth_get_transaction_receipt W (poll_world W tx_hash k w) tx_hash \<noteq> Receipt r)
      \<and> (\<forall>v. latency W v \<le> L)
    \<longrightarrow> (\<exists>w'. BNBTransfer_wait_for_confirmation W w tx_hash timeout
                 = (Inl (TimeoutError (''Transaction confirmation timeout after ''
                                       @ str_int timeout @ '' seconds'')), w')
             \<and> timeout * 1000 \<le> int (now w') - int (now w)
             \<and> int (now w') - int (now w) < max 0 (timeout * 1000) + 2000 + int L)
       \<and> (\<exists>w'. TokenTransfer_wait_for_confirmation W w tx_hash timeout
                 = (Inl (TimeoutError (''Token transfer confirmation timeout after ''
                                       @ str_int timeout @ '' seconds'')), w')
             \<and> timeout * 1000 \<le> int (now w') - int (now w)
             \<and> int (now w') - int (now w) < max 0 (timeout * 1000) + 2000 + int L))
   \<and> (BNBTransfer_wait_for_confirmation W w tx_hash timeout = (Inl e, w')
        \<longrightarrow> e = TimeoutError (''Transaction confirmation timeout after ''
                              @ str_int timeout @ '' seconds''))
   \<and> (TokenTransfer_wait_for_confirmation W w tx_hash timeout = (Inl e, w')
        \<longrightarrow> e = TimeoutError (''Token transfer confirmation timeout after ''
                              @ str_int timeout @ '' seconds''))
   \<and> ((\<forall>j<k. \<forall>r'. eth_get_transaction_receipt W (poll_world W tx_hash j w) tx_hash \<noteq> Receipt r')
        \<and> eth_get_transaction_receipt W (poll_world W tx_hash k w) tx_hash = Receipt r
        \<and> int (now (poll_world W tx_hash k w)) - int (now w) < timeout * 1000
      \<longrightarrow> BNBTransfer_wait_for_confirmation W w tx_hash timeout
            = (Inr \<lparr>cf_tx_hash = tx_hash,
                     cf_status = (if rc_status r = 1 then ''Success'' else ''Failed''),
                     cf_gas_used = rc_gasUsed r,
                     cf_block_number = rc_blockNumber r,
                     cf_confirmation_time
                       = now (poll_world W tx_hash k w) + latency W (poll_world W tx_hash k w)
                           - now w\<rparr>,
               request W (poll_world W tx_hash k w) (Ev_get_transaction_receipt tx_hash))
        \<and> TokenTransfer_wait_for_confirmation W w tx_hash timeout
            = (Inr \<lparr>cf_tx_hash = tx_hash,
                     cf_status = (if rc_status r = 1 then ''Success'' else ''Failed''),
                     cf_gas_used = rc_gasUsed r,
                     cf_block_number = rc_blockNumber r,
                     cf_confirmation_time
                       = now (poll_world W tx_hash k w) + latency W (poll_world W tx_hash k w)
                           - now w\<rparr>,
               request W (poll_world W tx_hash k w) (Ev_get_transaction_receipt tx_hash)))
   \<and> (BNBTransfer_wait_for_confirmation W w tx_hash timeout = (Inr c, w')
        \<longrightarrow> (\<exists>k r. (\<forall>j<k. \<forall>r'. eth_get_transaction_receipt W (poll_world W tx_hash j w) tx_hash
                                  \<noteq> Receipt r')
               \<and> eth_get_transaction_receipt W (poll_world W tx_hash k w) tx_hash = Receipt r
               \<and> int (now (poll_world W tx_hash k w)) - int (now w) < timeout * 1000
               \<and> c = \<lparr>cf_tx_hash = tx_hash,
                       cf_status = (if rc_status r = 1 then ''Success'' else ''Failed''),
                       cf_gas_used = rc_gasUsed r,
                       cf_block_number = rc_blockNumber r,
                       cf_confirmation_time
                         = now (poll_world W tx_hash k w)
                             + latency W (poll_world W tx_hash k w) - now w\<rparr>
               \<and> w' = request W (poll_world W tx_hash k w) (Ev_get_transaction_receipt tx_hash)))
   \<and> (TokenTransfer_wait_for_confirmation W w tx_hash timeout = (Inr c, w')
        \<longrightarrow> (\<exists>k r. (\<forall>j<k. \<forall>r'. eth_get_transaction_receipt W (poll_world W tx_hash j w) tx_hash
                                  \<noteq> Receipt r')
               \<and> eth_get_transaction_receipt W (poll_world W tx_hash k w) tx_hash = Receipt r
               \<and> int (now (poll_world W tx_hash k w)) - int (now w) < timeout * 1000
               \<and> c = \<lparr>cf_tx_hash = tx_hash,
                       cf_status = (if rc_status r = 1 then ''Success'' else ''Failed''),
                       cf_gas_used = rc_gasUsed r,
                       cf_block_number = rc_blockNumber r,
                       cf_confirmation_time
                         = now (poll_world W tx_hash k w)
                             + latency W (poll_world W tx_hash k w) - now w\<rparr>
               \<and> w' = request W (poll_world W tx_hash k w) (Ev_get_transaction_receipt tx_hash)))"
proof -
  have bound: "\<exists>w'. wait_loop W msg tx_hash timeout (now w) w
                 = (Inl (TimeoutError (msg @ str_int timeout @ '' seconds'')), w')
             \<and> timeout * 1000 \<le> int (now w') - int (now w)
             \<and> int (now w') - int (now w) < max 0 (timeout * 1000) + 2000 + int L"
    if none: "\<forall>k r. int (now (poll_world W tx_hash k w)) - int (now w) < timeout * 1000
              \<longrightarrow> eth_get_transaction_receipt W (poll_world W tx_hash k w) tx_hash \<noteq> Receipt r"
      and lat: "\<forall>v. latency W v \<le> L" for msg
  proof -
    from wait_loop_timeout [OF none lat, of msg]
    obtain k where r: "wait_loop W msg tx_hash timeout (now w) w
                 = (Inl (TimeoutError (msg @ str_int timeout @ '' seconds'')),
                    poll_world W tx_hash k w)"
      and lo: "timeout * 1000 \<le> int (now (poll_world W tx_hash k w)) - int (now w)"
      and hi: "k = 0 \<or> int (now (poll_world W tx_hash k w)) - int (now w)
                          < timeout * 1000 + 2000 + int L"
      by blast
    from hi have "int (now (poll_world W tx_hash k w)) - int (now w)
                    < max 0 (timeout * 1000) + 2000 + int L"
      by auto
    with r lo show ?thesis by blast
  qed
  have first: "wait_loop W msg tx_hash timeout (now w) w
            = (Inr \<lparr>cf_tx_hash = tx_hash,
                     cf_status = (if rc_status r = 1 then ''Success'' else ''Failed''),
                     cf_gas_used = rc_gasUsed r,
                     cf_block_number = rc_blockNumber r,
                     cf_confirmation_time
                       = now (poll_world W tx_hash k w) + latency W (poll_world W tx_hash k w)
                           - now w\<rparr>,
               request W (poll_world W tx_hash k w) (Ev_get_transaction_receipt tx_hash))"
    if "\<forall>j<k. \<forall>r'. eth_get_transaction_receipt W (poll_world W tx_hash j w) tx_hash \<noteq> Receipt r'"
      and "eth_get_transaction_receipt W (poll_world W tx_hash k w) tx_hash = Receipt r"
      and "int (now (poll_world W tx_hash k w)) - int (now w) < timeout * 1000" for msg
    using that by (rule wait_loop_first_receipt)
  have status: "\<exists>k r. (\<forall>j<k. \<forall>r'. eth_get_transaction_receipt W (poll_world W tx_hash j w) tx_hash
                                  \<noteq> Receipt r')
               \<and> eth_get_transaction_receipt W (poll_world W tx_hash k w) tx_hash = Receipt r
               \<and> int (now (poll_world W tx_hash k w)) - int (now w) < timeout * 1000
               \<and> c = \<lparr>cf_tx_hash = tx_hash,
                       cf_status = (if rc_status r = 1 then ''Success'' else ''Failed''),
                       cf_gas_used = rc_gasUsed r,
                       cf_block_number = rc_blockNumber r,
                       cf_confirmation_time
                         = now (poll_world W tx_hash k w)
                             + latency W (poll_world W tx_hash k w) - now w\<rparr>
               \<and> w' = request W (poll_world W tx_hash k w) (Ev_get_transaction_receipt tx_hash)"
    if "wait_loop W msg tx_hash timeout (now w) w = (Inr c, w')" for msg
  proof -
    from wait_loop_success [OF that]
    obtain k r where
      "\<forall>j<k. \<forall>r'. eth_get_transaction_receipt W (poll_world W tx_hash j w) tx_hash \<noteq> Receipt r'"
      "eth_get_transaction_receipt W (poll_world W tx_hash k w) tx_hash = Receipt r"
      "int (now (poll_world W tx_hash k w)) - int (now w) < timeout * 1000"
      "c = \<lparr>cf_tx_hash = tx_hash,
             cf_status = (if rc_status r = 1 then ''Success'' else ''Failed''),
             cf_gas_used = rc_gasUsed r,
             cf_block_number = rc_blockNumber r,
             cf_confirmation_time
               = now (poll_world W tx_hash k w) + latency W (poll_world W tx_hash k w) - now w\<rparr>"
      "w' = request W (poll_world W tx_hash k w) (Ev_get_transaction_receipt tx_hash)"
      by blast
    then show ?thesis by blast
  qed
  show ?thesis
    unfolding BNBTransfer_wait_for_confirmation_def TokenTransfer_wait_for_confirmation_def
    apply (intro conjI impI)
    subgoal using bound by blast
    subgoal using bound by blast
    subgoal using wait_loop_error by blast
    subgoal using wait_loop_error by blast
    subgoal using first by blast
    subgoal using first by blast
    subgoal using status by blast
    subgoal using status by blast
    done
qed

theorem wait_for_confirmation_outcomes_witness:
  "(\<exists>w'. BNBTransfer_wait_for_confirmation (test_web3 5 3 5000 (Inr 18)) world0 ''0xh'' 1
            = (Inl (TimeoutError ''Transaction confirmation timeout after 1 seconds''), w')
        \<and> 1 * 1000 \<le> int (now w') - int (now world0)
        \<and> int (now w') - int (now world0) < max 0 (1 * 1000) + 2000 + int 100)
   \<and> (\<exists>w'. TokenTransfer_wait_for_confirmation (test_web3 5 3 5000 (Inr 18)) world0 ''0xh'' 1
            = (Inl (TimeoutError ''Token transfer confirmation timeout after 1 seconds''), w')
        \<and> 1 * 1000 \<le> int (now w') - int (now world0)
        \<and> int (now w') - int (now world0) < max 0 (1 * 1000) + 2000 + int 100)
   \<and> eth_get_transaction_receipt (test_web3 5 3 2500 (Inr 18))
          (poll_world (test_web3 5 3 2500 (Inr 18)) ''0xh'' 0 world0) ''0xh''
        = Raises (Exception ''Transaction not found'')
   \<and> eth_get_transaction_receipt (test_web3 5 3 2500 (Inr 18))
          (poll_world (test_web3 5 3 2500 (Inr 18)) ''0xh'' 1 world0) ''0xh''
        = Raises (Exception ''Transaction not found'')
   \<and> eth_get_transaction_receipt (test_web3 5 3 2500 (Inr 18))
          (poll_world (test_web3 5 3 2500 (Inr 18)) ''0xh'' 2 world0) ''0xh''
        = Receipt \<lparr>rc_status = 1, rc_gasUsed = 21000, rc_blockNumber = 7\<rparr>
   \<and> int (now (poll_world (test_web3 5 3 2500 (Inr 18)) ''0xh'' 2 world0)) - int (now world0)
        < 300 * 1000
   \<and> BNBTransfer_wait_for_confirmation (test_web3 5 3 2500 (Inr 18)) world0 ''0xh'' 300
        = (Inr \<lparr>cf_tx_hash = ''0xh'', cf_status = ''Success'', cf_gas_used = 21000,
                 cf_block_number = 7, cf_confirmation_time = 4300\<rparr>,
           \<lparr>now = 4300,
            trace = [Ev_get_transaction_receipt ''0xh'', Ev_sleep 2,
                     Ev_get_transaction_receipt ''0xh'', Ev_sleep 2,
                     Ev_get_transaction_receipt ''0xh'']\<rparr>)
   \<and> TokenTransfer_wait_for_confirmation (test_web3 5 3 2500 (Inr 18)) world0 ''0xh'' 300
        = (Inr \<lparr>cf_tx_hash = ''0xh'', cf_status = ''Success'', cf_gas_used = 21000,
                 cf_block_number = 7, cf_confirmation_time = 4300\<rparr>,
           \<lparr>now = 4300,
            trace = [Ev_get_transaction_receipt ''0xh'', Ev_sleep 2,
                     Ev_get_transaction_receipt ''0xh'', Ev_sleep 2,
                     Ev_get_transaction_receipt ''0xh'']\<rparr>)
   \<and> BNBTransfer_wait_for_confirmation
          ((test_web3 5 3 2500 (Inr 18))
             \<lparr>eth_get_transaction_receipt :=
                \<lambda>w h. Receipt \<lparr>rc_status = 0, rc_gasUsed = 21000, rc_blockNumber = 7\<rparr>\<rparr>)
          world0 ''0xh'' 300
        = (Inr \<lparr>cf_tx_hash = ''0xh'', cf_status = ''Failed'', cf_gas_used = 21000,
                 cf_block_number = 7, cf_confirmation_time = 100\<rparr>,
           \<lparr>now = 100, trace = [Ev_get_transaction_receipt ''0xh'']\<rparr>)"
proof -
  let ?W = "test_web3 5 3 5000 (Inr 18)"
  let ?V = "test_web3 5 3 2500 (Inr 18)"
  let ?F = "?V\<lparr>eth_get_transaction_receipt :=
                \<lambda>w h. Receipt \<lparr>rc_status = 0, rc_gasUsed = 21000, rc_blockNumber = 7\<rparr>\<rparr>"
  have none: "\<forall>k r. int (now (poll_world ?W ''0xh'' k world0)) - int (now world0) < 1 * 1000
              \<longrightarrow> eth_get_transaction_receipt ?W (poll_world ?W ''0xh'' k world0) ''0xh''
                    \<noteq> Receipt r"
    by (simp add: test_web3_def world0_def)
  have lat: "\<forall>v. latency ?W v \<le> 100" by (simp add: test_web3_def)
  note t = wait_for_confirmation_outcomes [where W = ?W and w = world0 and tx_hash = "''0xh''"
      and timeout = 1 and L = 100, THEN conjunct1, rule_format, OF conjI, OF none lat]
  have s1: "str_int 1 = ''1''" by (simp add: str_int_def digit_char_def)
  from t have a: "(\<exists>w'. BNBTransfer_wait_for_confirmation ?W world0 ''0xh'' 1
            = (Inl (TimeoutError ''Transaction confirmation timeout after 1 seconds''), w')
        \<and> 1 * 1000 \<le> int (now w') - int (now world0)
        \<and> int (now w') - int (now world0) < max 0 (1 * 1000) + 2000 + int 100)
   \<and> (\<exists>w'. TokenTransfer_wait_for_confirmation ?W world0 ''0xh'' 1
            = (Inl (TimeoutError ''Token transfer confirmation timeout after 1 seconds''), w')
        \<and> 1 * 1000 \<le> int (now w') - int (now world0)
        \<and> int (now w') - int (now world0) < max 0 (1 * 1000) + 2000 + int 100)"
    by (simp add: s1)
  have l: "latency ?V = (\<lambda>w. 100)" by (simp add: test_web3_def)
  have r: "\<And>v. now v < 2500 \<Longrightarrow>
      eth_get_transaction_receipt ?V v ''0xh'' = Raises (Exception ''Transaction not found'')"
    by (simp add: test_web3_def)
  have r': "\<And>v. 2500 \<le> now v \<Longrightarrow>
      eth_get_transaction_receipt ?V v ''0xh''
        = Receipt \<lparr>rc_status = 1, rc_gasUsed = 21000, rc_blockNumber = 7\<rparr>"
    by (simp add: test_web3_def)
  have p0: "eth_get_transaction_receipt ?V (poll_world ?V ''0xh'' 0 world0) ''0xh''
        = Raises (Exception ''Transaction not found'')"
    unfolding test_poll_world by (rule r) simp
  have p1: "eth_get_transaction_receipt ?V (poll_world ?V ''0xh'' 1 world0) ''0xh''
        = Raises (Exception ''Transaction not found'')"
    unfolding test_poll_world by (rule r) simp
  have p2: "eth_get_transaction_receipt ?V (poll_world ?V ''0xh'' 2 world0) ''0xh''
        = Receipt \<lparr>rc_status = 1, rc_gasUsed = 21000, rc_blockNumber = 7\<rparr>"
    unfolding test_poll_world by (rule r') simp
  have d2: "int (now (poll_world ?V ''0xh'' 2 world0)) - int (now world0) < 300 * 1000"
    unfolding test_poll_world by (simp add: world0_def)
  have n2: "\<forall>j<2. \<forall>r'. eth_get_transaction_receipt ?V (poll_world ?V ''0xh'' j world0) ''0xh''
              \<noteq> Receipt r'"
  proof (intro allI impI)
    fix j :: nat and r'
    assume "j < 2"
    then consider "j = 0" | "j = 1" by linarith
    then show "eth_get_transaction_receipt ?V (poll_world ?V ''0xh'' j world0) ''0xh'' \<noteq> Receipt r'"
    proof cases
      case 1
      then show ?thesis using p0 by simp
    next
      case 2
      then show ?thesis using p1 by simp
    qed
  qed
  note u = wait_for_confirmation_outcomes [where W = ?V and w = world0 and tx_hash = "''0xh''"
      and timeout = 300 and k = 2
      and r = "\<lparr>rc_status = 1, rc_gasUsed = 21000, rc_blockNumber = 7\<rparr>",
      THEN conjunct2, THEN conjunct2, THEN conjunct2, THEN conjunct1, rule_format,
      OF conjI, OF n2 conjI, OF p2 d2]
  from u have b: "BNBTransfer_wait_for_confirmation ?V world0 ''0xh'' 300
        = (Inr \<lparr>cf_tx_hash = ''0xh'', cf_status = ''Success'', cf_gas_used = 21000,
                 cf_block_number = 7, cf_confirmation_time = 4300\<rparr>,
           \<lparr>now = 4300,
            trace = [Ev_get_transaction_receipt ''0xh'', Ev_sleep 2,
                     Ev_get_transaction_receipt ''0xh'', Ev_sleep 2,
                     Ev_get_transaction_receipt ''0xh'']\<rparr>)"
    and c: "TokenTransfer_wait_for_confirmation ?V world0 ''0xh'' 300
        = (Inr \<lparr>cf_tx_hash = ''0xh'', cf_status = ''Success'', cf_gas_used = 21000,
                 cf_block_number = 7, cf_confirmation_time = 4300\<rparr>,
           \<lparr>now = 4300,
            trace = [Ev_get_transaction_receipt ''0xh'', Ev_sleep 2,
                     Ev_get_transaction_receipt ''0xh'', Ev_sleep 2,
                     Ev_get_transaction_receipt ''0xh'']\<rparr>)"
    unfolding test_poll_world by (simp_all add: l request_def world0_def)
  have lf: "latency ?F = (\<lambda>w. 100)" by (simp add: test_web3_def)
  have f0: "eth_get_transaction_receipt ?F (poll_world ?F ''0xh'' 0 world0) ''0xh''
        = Receipt \<lparr>rc_status = 0, rc_gasUsed = 21000, rc_blockNumber = 7\<rparr>"
    by simp
  have fd: "int (now (poll_world ?F ''0xh'' 0 world0)) - int (now world0) < 300 * 1000"
    by (simp add: world0_def)
  have fn: "\<forall>j<0. \<forall>r'. eth_get_transaction_receipt ?F (poll_world ?F ''0xh'' j world0) ''0xh''
              \<noteq> Receipt r'"
    by simp
  note v = wait_for_confirmation_outcomes [where W = ?F and w = world0 and tx_hash = "''0xh''"
      and timeout = 300 and k = 0
      and r = "\<lparr>rc_status = 0, rc_gasUsed = 21000, rc_blockNumber = 7\<rparr>",
      THEN conjunct2, THEN conjunct2, THEN conjunct2, THEN conjunct1, rule_format,
      OF conjI, OF fn conjI, OF f0 fd, THEN conjunct1]
  from v have e: "BNBTransfer_wait_for_confirmation ?F world0 ''0xh'' 300
        = (Inr \<lparr>cf_tx_hash = ''0xh'', cf_status = ''Failed'', cf_gas_used = 21000,
                 cf_block_number = 7, cf_confirmation_time = 100\<rparr>,
           \<lparr>now = 100, trace = [Ev_get_transaction_receipt ''0xh'']\<rparr>)"
    by (simp add: lf request_def world0_def)
  from a p0 p1 p2 d2 b c e show ?thesis by blast
qed

section \<open>Properties of sending BNB\<close>

lemma get_balance_reply:
  assumes "is_address W addr"
    and "eth_get_balance W w (to_checksum_address W addr) = Inr wei"
    and "wei \<le> 2 ^ 256 - 1"
  shows "get_balance W w addr =
     (Inr \<lparr>bi_address = to_checksum_address W addr, bi_balance_wei = wei,
            bi_balance_bnb = round_float (of_nat wei / 10 ^ 18)\<rparr>,
      request W w (Ev_get_balance (to_checksum_address W addr)))"
  using assms by (simp add: get_balance_def from_wei_ether_def Let_def)

lemma round_float_one_wei_short:
  "round_float (of_nat 999999999999999999 / 10 ^ 18) = Finite 1"
proof -
  have "(of_nat 999999999999999999 / 10 ^ 18 :: rat) = (10 ^ 18 - 1) / 10 ^ 18" by simp
  then show ?thesis using binary64_one_wei_short by (simp only: round_float_def option.case)
qed

lemma test_send_bnb_one_wei_short:
  "send_bnb (test_web3 999999999999999999 3 2500 (Inr 18)) world0 ''k'' ''0xto'' (Finite 1) False =
     (Inr \<lparr>br_tx_hash = ''0xhash:signed:3'', br_from_address = ''0xaddr:k'',
            br_to_address = ''0xto'', br_amount_bnb = Finite 1,
            br_explorer_url = ''https://testnet.bscscan.com/tx/0xhash:signed:3'',
            br_confirmation = None\<rparr>,
      \<lparr>now = 400,
       trace = [Ev_get_balance ''0xaddr:k'', Ev_gas_price,
                Ev_get_transaction_count ''0xaddr:k'',
                Ev_sign \<lparr>tx_nonce = 3, tx_to = ''0xto'', tx_value = 1000000000000000000,
                         tx_gas = 21000, tx_gasPrice = 5000000000, tx_chainId = 97,
                         tx_data = None\<rparr>,
                Ev_send_raw_transaction ''signed:3'']\<rparr>)"
proof -
  let ?W = "test_web3 999999999999999999 3 2500 (Inr 18)"
  have b: "is_address ?W ''0xaddr:k''" by (simp add: test_web3_def startswith_def)
  have c: "eth_get_balance ?W world0 (to_checksum_address ?W ''0xaddr:k'') = Inr 999999999999999999"
    by (simp add: test_web3_def)
  have d: "(999999999999999999 :: nat) \<le> 2 ^ 256 - 1" by simp
  have g: "get_balance ?W world0 ''0xaddr:k'' =
     (Inr \<lparr>bi_address = ''0xaddr:k'', bi_balance_wei = 999999999999999999, bi_balance_bnb = Finite 1\<rparr>,
      \<lparr>now = 100, trace = [Ev_get_balance ''0xaddr:k'']\<rparr>)"
    using get_balance_reply [OF b c d]
    by (simp only: round_float_one_wei_short) (simp add: test_web3_def request_def world0_def)
  have t: "create_transaction ?W \<lparr>now = 100, trace = [Ev_get_balance ''0xaddr:k'']\<rparr>
             ''0xaddr:k'' ''0xto'' (Finite 1) None =
     (Inr \<lparr>tx_nonce = 3, tx_to = ''0xto'', tx_value = 1000000000000000000,
            tx_gas = 21000, tx_gasPrice = 5000000000, tx_chainId = 97, tx_data = None\<rparr>,
      \<lparr>now = 300, trace = [Ev_get_balance ''0xaddr:k'', Ev_gas_price,
                           Ev_get_transaction_count ''0xaddr:k'']\<rparr>)"
    by (simp add: create_transaction_def test_web3_def estimate_gas_price_def request_def
        startswith_def Let_def DEFAULT_GAS_LIMIT_def BSC_TESTNET_CHAIN_ID_def)
  have a: "account_from_key ?W ''k'' = Inr ''0xaddr:k''" by (simp add: test_web3_def)
  have s: "account_sign_transaction ?W
             \<lparr>tx_nonce = 3, tx_to = ''0xto'', tx_value = 1000000000000000000,
              tx_gas = 21000, tx_gasPrice = 5000000000, tx_chainId = 97, tx_data = None\<rparr> ''k''
           = Inr ''signed:3''"
    by (simp add: test_web3_def digit_char_def)
  have x: "\<And>v. eth_send_raw_transaction ?W v ''signed:3'' = Inr ''0xhash:signed:3''"
    by (simp add: test_web3_def)
  have l: "\<And>v. latency ?W v = 100" by (simp add: test_web3_def)
  show ?thesis
    by (simp add: send_bnb_def a g t s x l BNBTransfer_sign_transaction_def
        BNBTransfer_broadcast_transaction_def startswith_def request_def Let_def
        BSC_TESTNET_EXPLORER_def)
qed

text \<open>
  C5 (as amended). \<open>send_bnb\<close> compares the balance as \<open>get_balance\<close> reports it in BNB,
  which is the binary64 value nearest to the balance in wei over \<open>10 ^ 18\<close>. Whenever
  that value is below the requested amount, \<open>send_bnb\<close> raises a \<open>ValueError\<close> that
  starts \<open>Insufficient balance\<close>, and the one request it has made is the balance
  query: no transaction count is read, nothing is signed, nothing is sent.
\<close>

theorem send_bnb_balance_gate:
  assumes "account_from_key W private_key = Inr from_address"
    and "is_address W from_address"
    and "eth_get_balance W w (to_checksum_address W from_address) = Inr wei"
    and "wei \<le> 2 ^ 256 - 1"
    and "float_less (round_float (of_nat wei / 10 ^ 18)) amount_bnb"
  shows "\<exists>msg w'. send_bnb W w private_key to_address amount_bnb wait
                     = (Inl (ValueError msg), w')
           \<and> startswith msg ''Insufficient balance''
           \<and> trace w' = trace w @ [Ev_get_balance (to_checksum_address W from_address)]"
  using assms get_balance_reply [OF assms(2,3,4)]
  by (simp add: send_bnb_def insufficient_balance_msg_def startswith_def Let_def)

theorem send_bnb_balance_gate_witness:
  "\<exists>msg w'. send_bnb (test_web3 0 3 2500 (Inr 18)) world0 ''k'' ''0xto'' (Finite 1) True
               = (Inl (ValueError msg), w')
      \<and> startswith msg ''Insufficient balance''
      \<and> trace w' = trace world0
           @ [Ev_get_balance (to_checksum_address (test_web3 0 3 2500 (Inr 18)) ''0xaddr:k'')]"
proof -
  let ?W = "test_web3 0 3 2500 (Inr 18)"
  have a: "account_from_key ?W ''k'' = Inr ''0xaddr:k''" by (simp add: test_web3_def)
  have b: "is_address ?W ''0xaddr:k''" by (simp add: test_web3_def startswith_def)
  have c: "eth_get_balance ?W world0 (to_checksum_address ?W ''0xaddr:k'') = Inr 0"
    by (simp add: test_web3_def)
  have d: "(0::nat) \<le> 2 ^ 256 - 1" by simp
  have e: "float_less (round_float (of_nat 0 / 10 ^ 18)) (Finite 1)"
    by (simp add: round_float_def binary64_def)
  show ?thesis by (rule send_bnb_balance_gate [OF a b c d e])
qed

text \<open>
  The claim as stated fails where the rounding hides the shortfall: a sender holding
  one wei less than \<open>1\<close> BNB reports a balance of \<open>1.0\<close>, so a transfer of \<open>1.0\<close> BNB
  passes the gate and is built, signed and sent.
\<close>

theorem send_bnb_balance_gate_counterexample:
  "eth_get_balance (test_web3 999999999999999999 3 2500 (Inr 18)) world0 ''0xaddr:k''
     = Inr 999999999999999999
   \<and> (of_nat 999999999999999999 / 10 ^ 18 :: rat) < 1
   \<and> send_bnb (test_web3 999999999999999999 3 2500 (Inr 18)) world0 ''k'' ''0xto''
         (Finite 1) False =
     (Inr \<lparr>br_tx_hash = ''0xhash:signed:3'', br_from_address = ''0xaddr:k'',
            br_to_address = ''0xto'', br_amount_bnb = Finite 1,
            br_explorer_url = ''https://testnet.bscscan.com/tx/0xhash:signed:3'',
            br_confirmation = None\<rparr>,
      \<lparr>now = 400,
       trace = [Ev_get_balance ''0xaddr:k'', Ev_gas_price,
                Ev_get_transaction_count ''0xaddr:k'',
                Ev_sign \<lparr>tx_nonce = 3, tx_to = ''0xto'', tx_value = 1000000000000000000,
                         tx_gas = 21000, tx_gasPrice = 5000000000, tx_chainId = 97,
                         tx_data = None\<rparr>,
                Ev_send_raw_transaction ''signed:3'']\<rparr>)"
proof -
  have a: "eth_get_balance (test_web3 999999999999999999 3 2500 (Inr 18)) world0 ''0xaddr:k''
     = Inr 999999999999999999"
    by (simp add: test_web3_def)
  have b: "(of_nat 999999999999999999 / 10 ^ 18 :: rat) < 1" by simp
  from a b test_send_bnb_one_wei_short show ?thesis by (intro conjI)
qed

section \<open>Properties of deriving a wallet\<close>

lemma derive_leaf_1:
  "derive_leaf L seed_bytes 1 =
     Inr \<lparr>ctx_key = child_key L (child_key L (child_key L (child_key L (child_key L
                       (master_key L seed_bytes) 2147483692) 2147483708) 2147483649) 0) 0,
          ctx_path = [2147483692, 2147483708, 2147483649, 0, 0]\<rparr>"
  by (simp add: derive_leaf_def FromSeed_def Purpose_def Coin_def Account_def Change_def
      AddressIndex_def ChildKey_def HardenIndex_def CHAIN_EXT_def Let_def)

lemma path_string_1:
  "path_string [2147483692, 2147483708, 2147483649, 0, 0] = ''m/44'/60'/1'/0/0''"
  by (simp add: path_string_def path_elem_def digit_char_def)

lemma str_int_1: "str_int 1 = ''1''"
  by (simp add: str_int_def digit_char_def)

text \<open>
  C1. The walk puts \<open>account_index\<close> at the hardened account level and takes address
  index 0, while the path written into the wallet puts it at the address index. At
  \<open>account_index = 1\<close> the key derived is the one at \<open>m/44'/60'/1'/0/0\<close> and the wallet
  says \<open>m/44'/60'/0'/0/1\<close>.
\<close>

theorem recorded_path_is_not_derived_path:
  "derive_leaf L seed_bytes 1 =
     Inr \<lparr>ctx_key = child_key L (child_key L (child_key L (child_key L (child_key L
                       (master_key L seed_bytes) 2147483692) 2147483708) 2147483649) 0) 0,
          ctx_path = [2147483692, 2147483708, 2147483649, 0, 0]\<rparr>
   \<and> path_string [2147483692, 2147483708, 2147483649, 0, 0] = ''m/44'/60'/1'/0/0''
   \<and> fst (derive_wallet_from_mnemonic
            (L\<lparr>mnemo_check := \<lambda>m. Inr True, account_of_key := \<lambda>k. Inr (a, p)\<rparr>) s mnemonic 1)
     = Inr \<lparr>wi_mnemonic = mnemonic,
            wi_private_key = key_to_hex L (child_key L (child_key L (child_key L (child_key L
                 (child_key L (master_key L (seed_generate L mnemonic)) 2147483692)
                    2147483708) 2147483649) 0) 0),
            wi_public_key = p, wi_address = a,
            wi_bip44_path = ''m/44'/60'/0'/0/1''\<rparr>"
proof -
  let ?L = "L\<lparr>mnemo_check := \<lambda>m. Inr True, account_of_key := \<lambda>k. Inr (a, p)\<rparr>"
  have "fst (derive_wallet_from_mnemonic ?L s mnemonic 1)
     = Inr \<lparr>wi_mnemonic = mnemonic,
            wi_private_key = key_to_hex L (child_key L (child_key L (child_key L (child_key L
                 (child_key L (master_key L (seed_generate L mnemonic)) 2147483692)
                    2147483708) 2147483649) 0) 0),
            wi_public_key = p, wi_address = a,
            wi_bip44_path = ''m/44'/60'/0'/0/1''\<rparr>"
    using derive_leaf_1 [of ?L "seed_generate L mnemonic"]
    by (simp add: derive_wallet_from_mnemonic_def validate_mnemonic_def Let_def str_int_1)
  with derive_leaf_1 [of L seed_bytes] path_string_1 show ?thesis by (intro conjI)
qed

text \<open>
  For every index below \<open>2 ^ 31\<close> the leaf is at \<open>m/44'/60'/i'/0/0\<close>, and the path
  written into the wallet names it for \<open>i = 0\<close> only.
\<close>

lemma HardenIndex_add:
  assumes "0 \<le> i" and "i < 2 ^ 31"
  shows "HardenIndex i = i + 2 ^ 31"
proof -
  have "\<not> bit i 31" using assms by (simp add: bit_iff_odd)
  moreover have "n = 31" if "bit (2 ^ 31 :: int) n" for n
    using that by (simp only: bit_exp_iff)
  ultimately have "\<And>n. \<not> bit i n \<or> \<not> bit (2 ^ 31 :: int) n"
    by blast
  then have "i + 2 ^ 31 = i OR 2 ^ 31" by (rule disjunctive_add)
  then show ?thesis by (simp add: HardenIndex_def)
qed

lemma derive_leaf_path:
  assumes "0 \<le> i" and "i < 2 ^ 31"
  shows "\<exists>c. derive_leaf L seed_bytes i = Inr c
           \<and> ctx_path c = [2147483692, 2147483708, nat i + 2147483648, 0, 0]"
  using assms
  by (simp add: derive_leaf_def FromSeed_def Purpose_def Coin_def Account_def Change_def
      AddressIndex_def ChildKey_def HardenIndex_add CHAIN_EXT_def Let_def nat_add_distrib)

lemma str_nat_nonempty: "str_nat n \<noteq> []"
  by (subst str_nat.simps) simp

lemma digit_char_nonzero:
  assumes "0 < n" and "n < 10"
  shows "digit_char n \<noteq> CHR ''0''"
proof -
  from assms have "n \<in> {1, 2, 3, 4, 5, 6, 7, 8, 9}" by auto
  then show ?thesis by (auto simp add: digit_char_def)
qed

lemma hd_str_nat_pos: "0 < n \<Longrightarrow> hd (str_nat n) \<noteq> CHR ''0''"
proof (induction n rule: less_induct)
  case (less n)
  show ?case
  proof (cases "n < 10")
    case True
    then have "str_nat n = [digit_char n]" by (subst str_nat.simps) simp
    then show ?thesis using digit_char_nonzero [OF less.prems True] by simp
  next
    case False
    then have e: "str_nat n = str_nat (n div 10) @ [digit_char n]"
      by (subst str_nat.simps) simp
    have "n div 10 < n" "0 < n div 10" using False by simp_all
    from less.IH [OF this] show ?thesis
      by (simp add: e str_nat_nonempty del: str_nat.simps)
  qed
qed

lemma path_string_account:
  "path_string [2147483692, 2147483708, n + 2147483648, 0, 0]
     = ''m/44'/60'/'' @ str_nat n @ [CHR 39] @ ''/0/0''"
  by (simp add: path_string_def path_elem_def digit_char_def)

lemma recorded_path_names_leaf_iff:
  assumes "0 \<le> i" and "i < 2 ^ 31"
  shows "(''m/44'/60'/0'/0/'' @ str_int i
            = path_string [2147483692, 2147483708, nat i + 2147483648, 0, 0]) \<longleftrightarrow> i = 0"
proof (cases "i = 0")
  case True
  then show ?thesis
    using path_string_account [of 0] by (simp add: str_int_def digit_char_def)
next
  case False
  then have "0 < nat i" using assms by simp
  from hd_str_nat_pos [OF this] obtain c cs where c: "str_nat (nat i) = c # cs" "c \<noteq> CHR ''0''"
    by (cases "str_nat (nat i)") (simp_all add: str_nat_nonempty del: str_nat.simps)
  show ?thesis
    using False assms c by (simp add: path_string_account str_int_def del: str_nat.simps)
qed

lemma test_create_new_wallet:
  "create_new_wallet test_libs \<lparr>pool = ''0123456789abcdefXYZ''\<rparr> 128 =
     (Inr \<lparr>wi_mnemonic = ''words:0123456789abcdef'',
            wi_private_key = ''m/44'/60'/0'/0/0'',
            wi_public_key = ''pub:m/44'/60'/0'/0/0'',
            wi_address = ''0xaddr:m/44'/60'/0'/0/0'',
            wi_bip44_path = ''m/44'/60'/0'/0/0''\<rparr>,
      \<lparr>pool = ''XYZ''\<rparr>)"
  by (simp add: create_new_wallet_def generate_mnemonic_def derive_wallet_from_mnemonic_def
      validate_mnemonic_def derive_leaf_def FromSeed_def Purpose_def Coin_def Account_def
      Change_def AddressIndex_def ChildKey_def HardenIndex_def CHAIN_EXT_def Let_def
      test_libs_def startswith_def path_elem_def str_int_def digit_char_def)

text \<open>
  C2. \<open>derive_wallet_from_mnemonic\<close> neither reads nor changes the state it runs in:
  from any two states the same mnemonic and index give the same result, private key and
  address included. In particular a wallet that \<open>create_new_wallet\<close> made from fresh
  entropy is derived again, field by field, from its mnemonic at index 0 in any later
  state.
\<close>

theorem derive_wallet_deterministic:
  "fst (derive_wallet_from_mnemonic L sa mnemonic account_index)
     = fst (derive_wallet_from_mnemonic L sb mnemonic account_index)
   \<and> snd (derive_wallet_from_mnemonic L sa mnemonic account_index) = sa
   \<and> (create_new_wallet L s strength = (Inr wallet, s')
        \<longrightarrow> fst (derive_wallet_from_mnemonic L sb (wi_mnemonic wallet) 0) = Inr wallet)"
proof (intro conjI impI)
  show "fst (derive_wallet_from_mnemonic L sa mnemonic account_index)
     = fst (derive_wallet_from_mnemonic L sb mnemonic account_index)"
    by (simp add: derive_wallet_from_mnemonic_def Let_def split: sum.splits prod.splits)
  show "snd (derive_wallet_from_mnemonic L sa mnemonic account_index) = sa"
    by (simp add: derive_wallet_from_mnemonic_def Let_def split: sum.splits prod.splits)
  assume a: "create_new_wallet L s strength = (Inr wallet, s')"
  then obtain m sa where g: "generate_mnemonic L s strength = (Inr m, sa)"
    and d: "derive_wallet_from_mnemonic L sa m 0 = (Inr wallet, s')"
    by (auto simp add: create_new_wallet_def split: prod.splits sum.splits)
  from d have m: "wi_mnemonic wallet = m"
    by (auto simp add: derive_wallet_from_mnemonic_def Let_def
        split: if_splits sum.splits prod.splits)
  have "fst (derive_wallet_from_mnemonic L sb m 0) = fst (derive_wallet_from_mnemonic L sa m 0)"
    by (simp add: derive_wallet_from_mnemonic_def Let_def split: sum.splits prod.splits)
  with d m show "fst (derive_wallet_from_mnemonic L sb (wi_mnemonic wallet) 0) = Inr wallet"
    by simp
qed

theorem derive_wallet_deterministic_witness:
  "\<exists>wallet s'.
      create_new_wallet test_libs \<lparr>pool = ''0123456789abcdefXYZ''\<rparr> 128 = (Inr wallet, s')
    \<and> wi_address wallet = ''0xaddr:m/44'/60'/0'/0/0''
    \<and> fst (derive_wallet_from_mnemonic test_libs \<lparr>pool = ''''\<rparr> (wi_mnemonic wallet) 0)
        = Inr wallet
    \<and> fst (derive_wallet_from_mnemonic test_libs \<lparr>pool = ''XYZ''\<rparr> (wi_mnemonic wallet) 0)
        = fst (derive_wallet_from_mnemonic test_libs \<lparr>pool = ''''\<rparr> (wi_mnemonic wallet) 0)"
proof -
  obtain wallet s' where
    a: "create_new_wallet test_libs \<lparr>pool = ''0123456789abcdefXYZ''\<rparr> 128 = (Inr wallet, s')"
    and b: "wi_address wallet = ''0xaddr:m/44'/60'/0'/0/0''"
    using test_create_new_wallet by simp
  note t = derive_wallet_deterministic [where L = test_libs
      and s = "\<lparr>pool = ''0123456789abcdefXYZ''\<rparr>" and strength = 128 and wallet = wallet
      and s' = s' and sa = "\<lparr>pool = ''XYZ''\<rparr>" and sb = "\<lparr>pool = ''''\<rparr>"
      and mnemonic = "wi_mnemonic wallet" and account_index = 0]
  from t a b show ?thesis by blast
qed

end
